theory Spec2Isabelle
  imports Main
begin

section \<open>Data model\<close>

text \<open>
  The Forest task scheduler of the Beiwe backend: \<^verbatim>\<open>services/celery_forest.py\<close> (the
  dispatcher and the execution coordinator) and \<^verbatim>\<open>pages/forest_pages.py\<close> (the status
  grid and the cancel request).  Timestamps are microseconds since the epoch, dates are
  day numbers, primary keys are natural numbers.  Every Python exception of the model is
  an instance of \<^verbatim>\<open>Exception\<close>, so \<^verbatim>\<open>except Exception\<close> catches each of them.
\<close>

datatype Status = queued | running | success | error | cancelled

datatype exc =
    AttributeError | TypeError | KeyError | FileExistsError
  | DatabaseError | DoesNotExist | Raised string

type_synonym bytes = string

record ForestTask =
  task_id :: nat
  external_id :: string
  participant :: nat
  forest_tree :: string
  data_date_start :: int
  data_date_end :: int
  status :: Status
  created_on :: nat
  forest_version :: string
  process_start_time :: "nat option"
  process_download_end_time :: "nat option"
  process_end_time :: "nat option"
  total_file_size :: "nat option"
  stacktrace :: "string option"
  params_dict_cache :: "string option"

record Chunk =
  chunk_participant :: nat
  file_size :: nat
  chunk_path :: string
  study__object_id :: string
  time_bin :: nat

record Participant =
  participant_pk :: nat
  patient_id :: string
  participant_study :: nat

record Study =
  study_pk :: nat
  study_created_on :: nat

text \<open>One submission to the execution backend: the keyword arguments of \<^verbatim>\<open>apply_async\<close>.\<close>

record dispatch =
  args :: "nat list"
  expires :: nat
  max_retries :: nat
  retry :: bool
  task_publish_retry :: bool
  task_track_started :: bool

datatype artifact = all_bv_set | all_memory_dict

type_synonym fs = "(string \<times> string) list"

type_synonym params = "(string \<times> string) list"

record world =
  tasks :: "ForestTask list"
  chunks :: "Chunk list"
  participants :: "Participant list"
  studies :: "Study list"
  dispatched :: "dispatch list"
  files :: fs
  artifacts :: "((nat \<times> artifact) \<times> bytes) list"
  clock :: nat

text \<open>
  The names of the model fields that the coordinator passes to \<^verbatim>\<open>save\<close>, the two keyword
  spellings it uses (\<^verbatim>\<open>update_fields\<close> on lines 79 and 84, \<^verbatim>\<open>update_field\<close> on lines 89
  and 93), and the database calls it makes after the transaction.
\<close>

datatype field =
    F_status | F_forest_version | F_process_start_time | F_total_file_size
  | F_process_download_end_time | F_params_dict_cache

datatype save_kwargs = no_kwargs | update_fields "field list" | update_field "field list"

datatype db_call =
    Aggregate_file_size | Save_total_file_size | Save_download_end
  | Save_params_cache | Save_final

text \<open>
  What the sources import and do not define is a parameter of the model: the keyword
  parameters that \<^verbatim>\<open>ForestTask.save\<close> declares beyond those of Django's \<^verbatim>\<open>Model.save\<close>,
  whether a database call after the transaction fails, the package version, the two tree identifiers and their analysis
  entry points, the parameter builder, the summary builder, the blob store, the path
  properties of a task, whether the artifact store fails, and how long the download and
  the analysis take.
\<close>

record env =
  own_save_keywords :: "string list"
  db_fault :: "db_call \<Rightarrow> exc option"
  forest_dist_version :: string
  ForestTree_jasmine :: string
  ForestTree_willow :: string
  gps_stats_main :: "params \<Rightarrow> fs \<Rightarrow> exc option \<times> fs"
  log_stats_main :: "params \<Rightarrow> fs \<Rightarrow> exc option \<times> fs"
  params_dict :: "ForestTask \<Rightarrow> exc + params"
  json_dumps :: "params \<Rightarrow> exc + string"
  construct_summary_statistics :: "ForestTask \<Rightarrow> fs \<Rightarrow> exc option"
  s3_retrieve :: "string \<Rightarrow> string \<Rightarrow> exc + bytes"
  decode_utf8 :: "bytes \<Rightarrow> exc + string"
  determine_file_name :: "Chunk \<Rightarrow> string"
  os_makedirs :: "string \<Rightarrow> exc option"
  data_input_path :: "ForestTask \<Rightarrow> string"
  data_base_path :: "ForestTask \<Rightarrow> string"
  all_bv_set_path :: "ForestTask \<Rightarrow> string"
  all_memory_dict_path :: "ForestTask \<Rightarrow> string"
  artifact_fault :: "artifact \<Rightarrow> exc option"
  download_time :: nat
  analysis_time :: nat

section \<open>The object-relational layer\<close>

text \<open>\<^verbatim>\<open>.first()\<close>, \<^verbatim>\<open>.exists()\<close> and \<^verbatim>\<open>.order_by("-key")\<close> of a query set.\<close>

definition first_row :: "'a list \<Rightarrow> 'a option" where
  "first_row rows = (case rows of [] \<Rightarrow> None | r # _ \<Rightarrow> Some r)"

definition exists_row :: "'a list \<Rightarrow> bool" where
  "exists_row rows = (rows \<noteq> [])"

definition order_by_desc :: "('a \<Rightarrow> int) \<Rightarrow> 'a list \<Rightarrow> 'a list" where
  "order_by_desc key rows = sort_key (\<lambda>r. - key r) rows"

text \<open>\<^verbatim>\<open>aggregate(Sum('file_size'))\<close>: the sum of the column, and NULL over no rows.\<close>

definition Sum_file_size :: "Chunk list \<Rightarrow> nat option" where
  "Sum_file_size cs = (if cs = [] then None else Some (sum_list (map file_size cs)))"

fun kwarg_name :: "save_kwargs \<Rightarrow> string option" where
  "kwarg_name no_kwargs = None"
| "kwarg_name (update_fields fs) = Some ''update_fields''"
| "kwarg_name (update_field fs) = Some ''update_field''"

fun kwarg_fields :: "save_kwargs \<Rightarrow> field list" where
  "kwarg_fields no_kwargs = []"
| "kwarg_fields (update_fields fs) = fs"
| "kwarg_fields (update_field fs) = fs"

text \<open>
  The signature of \<^verbatim>\<open>django.db.models.Model.save\<close>: the keyword parameters a model class
  has when it does not declare its own.
\<close>

definition django_save_keywords :: "string list" where
  "django_save_keywords = [''force_insert'', ''force_update'', ''using'', ''update_fields'']"

fun copy_field :: "ForestTask \<Rightarrow> field \<Rightarrow> ForestTask \<Rightarrow> ForestTask" where
  "copy_field t F_status row = row\<lparr>status := status t\<rparr>"
| "copy_field t F_forest_version row = row\<lparr>forest_version := forest_version t\<rparr>"
| "copy_field t F_process_start_time row = row\<lparr>process_start_time := process_start_time t\<rparr>"
| "copy_field t F_total_file_size row = row\<lparr>total_file_size := total_file_size t\<rparr>"
| "copy_field t F_process_download_end_time row =
     row\<lparr>process_download_end_time := process_download_end_time t\<rparr>"
| "copy_field t F_params_dict_cache row = row\<lparr>params_dict_cache := params_dict_cache t\<rparr>"

definition update_row :: "ForestTask \<Rightarrow> field list \<Rightarrow> ForestTask \<Rightarrow> ForestTask" where
  "update_row t fs row = (if task_id row = task_id t then fold (copy_field t) fs row else row)"

definition replace_row :: "ForestTask \<Rightarrow> ForestTask \<Rightarrow> ForestTask" where
  "replace_row t row = (if task_id row = task_id t then t else row)"

text \<open>
  \<^verbatim>\<open>tracker.save(...)\<close>.  Python raises TypeError for a keyword the method does not
  declare; after that the database call may fail (the second argument).  With a list of fields the row of the same primary key gets the named fields
  of the in-memory object, and a missing row is a DatabaseError; with no argument every
  field is written, and a missing row is inserted.
\<close>

definition save :: "env \<Rightarrow> exc option \<Rightarrow> ForestTask \<Rightarrow> save_kwargs \<Rightarrow> ForestTask list \<Rightarrow>
    exc + ForestTask list" where
  "save e fault t kw table =
     (case kwarg_name kw of
        None \<Rightarrow>
          (case fault of
             Some x \<Rightarrow> Inl x
           | None \<Rightarrow>
               if task_id t \<in> task_id ` set table then Inr (map (replace_row t) table)
               else Inr (table @ [t]))
      | Some k \<Rightarrow>
          if k \<notin> set (django_save_keywords @ own_save_keywords e) then Inl TypeError
          else
            (case fault of
               Some x \<Rightarrow> Inl x
             | None \<Rightarrow>
                 if task_id t \<in> task_id ` set table
                 then Inr (map (update_row t (kwarg_fields kw)) table)
                 else Inl DatabaseError))"

section \<open>The dispatcher\<close>

definition second :: nat where
  "second = 1000000"

definition minute :: nat where
  "minute = 60 * second"

text \<open>\<^verbatim>\<open>(datetime.utcnow() + timedelta(minutes=5)).replace(second=30, microsecond=0)\<close>\<close>

definition expiry :: "nat \<Rightarrow> nat" where
  "expiry now = ((now + 5 * minute) div minute) * minute + 30 * second"

text \<open>
  Modelled from the spec: \<^verbatim>\<open>safe_apply_async\<close> of \<^verbatim>\<open>libs.celery_control\<close> is not part of
  the sources; the dispatch backend accepts the task id with its expiry.
\<close>

definition safe_apply_async :: "dispatch \<Rightarrow> world \<Rightarrow> world" where
  "safe_apply_async d w = w\<lparr>dispatched := dispatched w @ [d]\<rparr>"

text \<open>
  \<^verbatim>\<open>enqueue_forest_task(args=[...])\<close>: both callers pass \<^verbatim>\<open>args\<close> alone, so the four
  policy keys keep their defaults.
\<close>

definition updated_kwargs :: "nat \<Rightarrow> nat list \<Rightarrow> dispatch" where
  "updated_kwargs now as =
     \<lparr>args = as, expires = expiry now, max_retries = 0, retry = False,
      task_publish_retry = False, task_track_started = True\<rparr>"

definition enqueue_forest_task :: "nat list \<Rightarrow> world \<Rightarrow> world" where
  "enqueue_forest_task as w = safe_apply_async (updated_kwargs (clock w) as) w"

definition create_forest_celery_tasks :: "world \<Rightarrow> world" where
  "create_forest_celery_tasks w =
     (let pending_trackers = filter (\<lambda>t. status t = queued) (tasks w)
      in fold (\<lambda>tracker. enqueue_forest_task [task_id tracker]) pending_trackers w)"

section \<open>The execution coordinator\<close>

text \<open>\<^verbatim>\<open>traceback.format_exc()\<close>: the header line, then the exception.\<close>

fun exc_name :: "exc \<Rightarrow> string" where
  "exc_name AttributeError = ''AttributeError''"
| "exc_name TypeError = ''TypeError''"
| "exc_name KeyError = ''KeyError''"
| "exc_name FileExistsError = ''FileExistsError''"
| "exc_name DatabaseError = ''DatabaseError''"
| "exc_name DoesNotExist = ''DoesNotExist''"
| "exc_name (Raised msg) = msg"

definition format_exc :: "exc \<Rightarrow> string" where
  "format_exc x = ''Traceback (most recent call last): '' @ exc_name x"

text \<open>The outcome of the transaction, lines 47 to 79.\<close>

datatype txn_result = TxnRaised exc | TxnReturned | TxnStarted ForestTask nat

definition siblings :: "ForestTask \<Rightarrow> ForestTask list \<Rightarrow> ForestTask list" where
  "siblings c table =
     filter (\<lambda>t. participant t = participant c \<and> forest_tree t = forest_tree c) table"

definition celery_run_forest_txn :: "env \<Rightarrow> world \<Rightarrow> nat \<Rightarrow> txn_result \<times> world" where
  "celery_run_forest_txn e w forest_task_id =
     (case first_row (filter (\<lambda>t. task_id t = forest_task_id) (tasks w)) of
        None \<Rightarrow> (TxnRaised AttributeError, w)
      | Some candidate \<Rightarrow>
          let trackers = siblings candidate (tasks w) in
          if exists_row (filter (\<lambda>t. status t = running) trackers)
          then (TxnReturned, enqueue_forest_task [task_id candidate] w)
          else
            (case first_row (order_by_desc data_date_start
                               (filter (\<lambda>t. status t = queued) trackers)) of
               None \<Rightarrow> (TxnReturned, w)
             | Some selected \<Rightarrow>
                 let tracker = selected
                       \<lparr>status := running,
                        forest_version := forest_dist_version e,
                        process_start_time := Some (clock w)\<rparr>
                 in (case save e None tracker
                            (update_fields [F_status, F_forest_version, F_process_start_time])
                            (tasks w) of
                       Inl x \<Rightarrow> (TxnRaised x, w)
                     | Inr table \<Rightarrow>
                         (TxnStarted tracker (participant candidate), w\<lparr>tasks := table\<rparr>))))"

subsection \<open>The local workspace\<close>

text \<open>\<^verbatim>\<open>os.path.join\<close> of two components and \<^verbatim>\<open>os.path.dirname\<close>, on POSIX paths.\<close>

definition path_join :: "string \<Rightarrow> string \<Rightarrow> string" where
  "path_join a b =
     (if b \<noteq> [] \<and> hd b = CHR ''/'' then b
      else if a = [] \<or> last a = CHR ''/'' then a @ b
      else a @ ''/'' @ b)"

definition dirname :: "string \<Rightarrow> string" where
  "dirname p =
     (let d = rev (dropWhile (\<lambda>c. c \<noteq> CHR ''/'') (rev p));
          stripped = rev (dropWhile (\<lambda>c. c = CHR ''/'') (rev d))
      in if stripped = [] then d else stripped)"

definition path_exists :: "fs \<Rightarrow> string \<Rightarrow> bool" where
  "path_exists fsys p = (p \<in> fst ` set fsys)"

text \<open>\<^verbatim>\<open>open(file_name, "x")\<close> creates an empty file, and fails on an existing path.\<close>

definition open_x :: "fs \<Rightarrow> string \<Rightarrow> exc + fs" where
  "open_x fsys p = (if path_exists fsys p then Inl FileExistsError else Inr (fsys @ [(p, [])]))"

definition f_write :: "fs \<Rightarrow> string \<Rightarrow> string \<Rightarrow> fs" where
  "f_write fsys p s = map (\<lambda>(q, c). if q = p then (q, c @ s) else (q, c)) fsys"

text \<open>The \<^verbatim>\<open>file_name\<close> of a chunk, lines 112 to 115.\<close>

definition local_file_name :: "env \<Rightarrow> ForestTask \<Rightarrow> Chunk \<Rightarrow> string" where
  "local_file_name e tracker chunk =
     path_join (data_input_path e tracker) (determine_file_name e chunk)"

fun create_local_data_files :: "env \<Rightarrow> ForestTask \<Rightarrow> Chunk list \<Rightarrow> fs \<Rightarrow> exc option \<times> fs" where
  "create_local_data_files e tracker [] fsys = (None, fsys)"
| "create_local_data_files e tracker (chunk # rest) fsys =
     (case s3_retrieve e (chunk_path chunk) (study__object_id chunk) of
        Inl x \<Rightarrow> (Some x, fsys)
      | Inr contents \<Rightarrow>
          let file_name = local_file_name e tracker chunk in
          (case os_makedirs e (dirname file_name) of
             Some x \<Rightarrow> (Some x, fsys)
           | None \<Rightarrow>
               (case open_x fsys file_name of
                  Inl x \<Rightarrow> (Some x, fsys)
                | Inr fsys1 \<Rightarrow>
                    (case decode_utf8 e contents of
                       Inl x \<Rightarrow> (Some x, fsys1)
                     | Inr text \<Rightarrow>
                         create_local_data_files e tracker rest (f_write fsys1 file_name text)))))"

text \<open>
  Modelled from the spec: \<^verbatim>\<open>ForestTask.save_all_bv_set_bytes\<close> and
  \<^verbatim>\<open>save_all_memory_dict_bytes\<close> are not part of the sources; each persists one named
  blob of the task, out of line from the row.
\<close>

definition put_artifact :: "nat \<times> artifact \<Rightarrow> bytes \<Rightarrow>
    ((nat \<times> artifact) \<times> bytes) list \<Rightarrow> ((nat \<times> artifact) \<times> bytes) list" where
  "put_artifact k b store = filter (\<lambda>(k', _). k' \<noteq> k) store @ [(k, b)]"

definition save_artifact_bytes :: "env \<Rightarrow> ForestTask \<Rightarrow> artifact \<Rightarrow> bytes \<Rightarrow> world \<Rightarrow>
    exc option \<times> world" where
  "save_artifact_bytes e tracker a b w =
     (case artifact_fault e a of
        Some x \<Rightarrow> (Some x, w)
      | None \<Rightarrow>
          (None, w\<lparr>artifacts := put_artifact (task_id tracker, a) b (artifacts w)\<rparr>))"

text \<open>The path at which the analysis leaves the file of an artifact.\<close>

definition artifact_path :: "env \<Rightarrow> artifact \<Rightarrow> ForestTask \<Rightarrow> string" where
  "artifact_path e a = (case a of all_bv_set \<Rightarrow> all_bv_set_path e
                                | all_memory_dict \<Rightarrow> all_memory_dict_path e)"

definition save_cached_files :: "env \<Rightarrow> ForestTask \<Rightarrow> world \<Rightarrow> exc option \<times> world" where
  "save_cached_files e tracker w =
     (case (case map_of (files w) (all_bv_set_path e tracker) of
              None \<Rightarrow> (None, w)
            | Some b \<Rightarrow> save_artifact_bytes e tracker all_bv_set b w) of
        (Some x, w1) \<Rightarrow> (Some x, w1)
      | (None, w1) \<Rightarrow>
          (case map_of (files w1) (all_memory_dict_path e tracker) of
             None \<Rightarrow> (None, w1)
           | Some b \<Rightarrow> save_artifact_bytes e tracker all_memory_dict b w1))"

text \<open>
  Modelled from the spec: \<^verbatim>\<open>ForestTask.clean_up_files\<close> is not part of the sources; it
  deletes the scratch files of the task, everything at or below its base path.
\<close>

definition below :: "string \<Rightarrow> string \<Rightarrow> bool" where
  "below base p = (p = base \<or> take (Suc (length base)) p = base @ ''/'')"

definition clean_up_files :: "env \<Rightarrow> ForestTask \<Rightarrow> world \<Rightarrow> world" where
  "clean_up_files e tracker w =
     w\<lparr>files := filter (\<lambda>(p, _). \<not> below (data_base_path e tracker) p) (files w)\<rparr>"

subsection \<open>The pipeline\<close>

definition TREE_TO_FOREST_FUNCTION :: "env \<Rightarrow> string \<Rightarrow> (params \<Rightarrow> fs \<Rightarrow> exc option \<times> fs) option"
  where
  "TREE_TO_FOREST_FUNCTION e tree =
     (if tree = ForestTree_jasmine e then Some (gps_stats_main e)
      else if tree = ForestTree_willow e then Some (log_stats_main e)
      else None)"

text \<open>
  The body of the \<^verbatim>\<open>try\<close> statement, lines 87 to 96, in three parts.  Each returns the
  exception it raised, if any, with the in-memory tracker and the world as they are at
  that moment.
\<close>

definition try_lines_94_96 :: "env \<Rightarrow> params \<Rightarrow> ForestTask \<Rightarrow> world \<Rightarrow>
    exc option \<times> ForestTask \<times> world" where
  "try_lines_94_96 e params_dict' tracker w =
     (case TREE_TO_FOREST_FUNCTION e (forest_tree tracker) of
        None \<Rightarrow> (Some KeyError, tracker, w)
      | Some forest_function \<Rightarrow>
          (case forest_function params_dict' (files w) of
             (r, fsys) \<Rightarrow>
               let w1 = w\<lparr>files := fsys, clock := clock w + analysis_time e\<rparr> in
               (case r of
                  Some x \<Rightarrow> (Some x, tracker, w1)
                | None \<Rightarrow>
                    (case construct_summary_statistics e tracker (files w1) of
                       Some x \<Rightarrow> (Some x, tracker, w1)
                     | None \<Rightarrow>
                         (case save_cached_files e tracker w1 of
                            (r2, w2) \<Rightarrow> (r2, tracker, w2))))))"

definition try_lines_91_96 :: "env \<Rightarrow> ForestTask \<Rightarrow> world \<Rightarrow>
    exc option \<times> ForestTask \<times> world" where
  "try_lines_91_96 e tracker w =
     (case params_dict e tracker of
        Inl x \<Rightarrow> (Some x, tracker, w)
      | Inr params_dict' \<Rightarrow>
          (case json_dumps e params_dict' of
             Inl x \<Rightarrow> (Some x, tracker, w)
           | Inr dumped \<Rightarrow>
               let tracker1 = tracker\<lparr>params_dict_cache := Some dumped\<rparr> in
               (case save e (db_fault e Save_params_cache) tracker1 (update_field [F_params_dict_cache])
                       (tasks w) of
                  Inl x \<Rightarrow> (Some x, tracker1, w)
                | Inr table \<Rightarrow> try_lines_94_96 e params_dict' tracker1 (w\<lparr>tasks := table\<rparr>))))"

definition try_body :: "env \<Rightarrow> ForestTask \<Rightarrow> Chunk list \<Rightarrow> world \<Rightarrow>
    exc option \<times> ForestTask \<times> world" where
  "try_body e tracker chunks' w =
     (case create_local_data_files e tracker chunks' (files w) of
        (r, fsys) \<Rightarrow>
          let w1 = w\<lparr>files := fsys, clock := clock w + download_time e\<rparr> in
          (case r of
             Some x \<Rightarrow> (Some x, tracker, w1)
           | None \<Rightarrow>
               let tracker1 = tracker\<lparr>process_download_end_time := Some (clock w1)\<rparr> in
               (case save e (db_fault e Save_download_end) tracker1
                       (update_field [F_process_download_end_time]) (tasks w1) of
                  Inl x \<Rightarrow> (Some x, tracker1, w1)
                | Inr table \<Rightarrow> try_lines_91_96 e tracker1 (w1\<lparr>tasks := table\<rparr>))))"

text \<open>
  Lines 81 to 84, after the transaction: the total size of the participant's chunks is
  computed and saved.  An exception here leaves the function.
\<close>

definition save_file_size_data :: "env \<Rightarrow> world \<Rightarrow> ForestTask \<Rightarrow> nat \<Rightarrow>
    exc + ForestTask \<times> Chunk list \<times> world" where
  "save_file_size_data e w tracker participant' =
     (let chunks' = filter (\<lambda>c. chunk_participant c = participant') (chunks w) in
      case db_fault e Aggregate_file_size of
        Some x \<Rightarrow> Inl x
      | None \<Rightarrow>
          let tracker1 = tracker\<lparr>total_file_size := Sum_file_size chunks'\<rparr> in
          (case save e (db_fault e Save_total_file_size) tracker1
                  (update_fields [F_total_file_size]) (tasks w) of
             Inl x \<Rightarrow> Inl x
           | Inr table \<Rightarrow> Inr (tracker1, chunks', w\<lparr>tasks := table\<rparr>)))"

text \<open>
  Lines 98 to 103: the \<^verbatim>\<open>except Exception\<close> and \<^verbatim>\<open>else\<close> clauses and the end time, on
  the in-memory tracker.
\<close>

definition final_tracker :: "exc option \<Rightarrow> ForestTask \<Rightarrow> world \<Rightarrow> ForestTask" where
  "final_tracker r tracker w =
     (case r of
        Some x \<Rightarrow> tracker\<lparr>status := error, stacktrace := Some (format_exc x)\<rparr>
      | None \<Rightarrow> tracker\<lparr>status := success\<rparr>)
     \<lparr>process_end_time := Some (clock w)\<rparr>"

text \<open>Lines 98 to 106: the final save, and the clean-up when the save returned.\<close>

definition finish_run :: "env \<Rightarrow> exc option \<Rightarrow> ForestTask \<Rightarrow> world \<Rightarrow> exc option \<times> world" where
  "finish_run e r tracker w =
     (let tracker1 = final_tracker r tracker w in
      case save e (db_fault e Save_final) tracker1 no_kwargs (tasks w) of
        Inl x \<Rightarrow> (Some x, w)
      | Inr table \<Rightarrow> (None, clean_up_files e tracker1 (w\<lparr>tasks := table\<rparr>)))"

text \<open>
  Lines 81 to 106.  The result is the exception that left the function, if any, and
  the state it leaves.
\<close>

definition celery_run_forest_rest :: "env \<Rightarrow> world \<Rightarrow> ForestTask \<Rightarrow> nat \<Rightarrow> exc option \<times> world"
  where
  "celery_run_forest_rest e w tracker participant' =
     (case save_file_size_data e w tracker participant' of
        Inl x \<Rightarrow> (Some x, w)
      | Inr (tracker1, chunks', w1) \<Rightarrow>
          (case try_body e tracker1 chunks' w1 of
             (r, tracker2, w2) \<Rightarrow> finish_run e r tracker2 w2))"

definition celery_run_forest :: "env \<Rightarrow> world \<Rightarrow> nat \<Rightarrow> exc option \<times> world" where
  "celery_run_forest e w forest_task_id =
     (case celery_run_forest_txn e w forest_task_id of
        (TxnRaised x, w1) \<Rightarrow> (Some x, w1)
      | (TxnReturned, w1) \<Rightarrow> (None, w1)
      | (TxnStarted tracker participant', w1) \<Rightarrow>
          celery_run_forest_rest e w1 tracker participant')"

section \<open>The reporting pages\<close>

text \<open>
  Modelled from the spec: \<^verbatim>\<open>daterange\<close> of \<^verbatim>\<open>libs.utils.date_utils\<close> is not part of the
  sources; with \<^verbatim>\<open>inclusive=True\<close> it yields every date from the first to the last.
\<close>

definition daterange :: "int \<Rightarrow> int \<Rightarrow> int list" where
  "daterange start stop = [start..stop]"

text \<open>\<^verbatim>\<open>.date()\<close> of a timestamp.\<close>

definition date_of :: "nat \<Rightarrow> int" where
  "date_of t = int (t div (86400 * second))"

text \<open>\<^verbatim>\<open>.earliest("time_bin")\<close> and \<^verbatim>\<open>.latest("time_bin")\<close>; both raise DoesNotExist on no rows.\<close>

definition earliest :: "Chunk list \<Rightarrow> exc + nat" where
  "earliest cs = (case cs of [] \<Rightarrow> Inl DoesNotExist | c # cs' \<Rightarrow> Inr (fold min (map time_bin cs') (time_bin c)))"

definition latest :: "Chunk list \<Rightarrow> exc + nat" where
  "latest cs = (case cs of [] \<Rightarrow> Inl DoesNotExist | c # cs' \<Rightarrow> Inr (fold max (map time_bin cs') (time_bin c)))"

text \<open>
  The \<^verbatim>\<open>results\<close> dictionary of \<^verbatim>\<open>analysis_progress\<close>: a \<^verbatim>\<open>defaultdict\<close> whose missing keys
  read as \<^verbatim>\<open>"--"\<close>.  A cell of the chart is that string or a status.
\<close>

type_synonym results = "nat \<times> string \<times> int \<Rightarrow> Status option"

type_synonym cell = "string + Status"

definition lookup_default :: "results \<Rightarrow> nat \<times> string \<times> int \<Rightarrow> cell" where
  "lookup_default res k = (case res k of None \<Rightarrow> Inl ''--'' | Some s \<Rightarrow> Inr s)"

definition record_tracker :: "ForestTask \<Rightarrow> results \<Rightarrow> results" where
  "record_tracker tracker res =
     fold (\<lambda>date r. r((participant tracker, forest_tree tracker, date) \<mapsto> status tracker))
       (daterange (data_date_start tracker) (data_date_end tracker)) res"

record chart_row =
  row_participant :: nat
  row_tree :: string
  row_cells :: "cell list"

record progress_page =
  start_date :: int
  end_date :: int
  chart_dates :: "int list"
  chart :: "chart_row list"

text \<open>
  \<^verbatim>\<open>analysis_progress\<close>, lines 33 to 69: the chart of the most recent results by
  participant, tree and date.  The trees are the values of \<^verbatim>\<open>ForestTree\<close>, which the
  sources import; the bookkeeping of \<^verbatim>\<open>metadata\<close> (lines 55 to 58 and 71 to 77) does not
  enter the chart and is left out.  The page reads the database and returns it as it is.
\<close>

definition analysis_progress :: "string list \<Rightarrow> int \<Rightarrow> world \<Rightarrow> nat \<Rightarrow> (exc + progress_page) \<times> world"
  where
  "analysis_progress ForestTree_values today w study_id =
     (case first_row (filter (\<lambda>s. study_pk s = study_id) (studies w)) of
        None \<Rightarrow> (Inl DoesNotExist, w)
      | Some study \<Rightarrow>
          let participants' = filter (\<lambda>p. participant_study p = study_id) (participants w);
              pks = set (map participant_pk participants');
              trackers = sort_key created_on (filter (\<lambda>t. participant t \<in> pks) (tasks w));
              registry = filter (\<lambda>c. chunk_participant c \<in> pks) (chunks w);
              (start_date', end_date') =
                 (case (earliest registry, latest registry) of
                    (Inr a, Inr b) \<Rightarrow> (date_of a, date_of b)
                  | _ \<Rightarrow> (date_of (study_created_on study), today));
              res = fold record_tracker trackers Map.empty;
              dates = daterange start_date' end_date';
              chart' = concat (map (\<lambda>p. map (\<lambda>tree.
                         \<lparr>row_participant = participant_pk p, row_tree = tree,
                          row_cells = map (\<lambda>date. lookup_default res (participant_pk p, tree, date)) dates\<rparr>)
                         ForestTree_values) participants')
          in (Inr \<lparr>start_date = start_date', end_date = end_date',
                   chart_dates = dates, chart = chart'\<rparr>, w))"

text \<open>The session researcher and the response of a page.\<close>

record Researcher =
  username :: string
  site_admin :: bool

datatype response = Abort nat | Flash_redirect string string

text \<open>
  The POST branch of \<^verbatim>\<open>task_log\<close>, lines 157 to 178: the cancel request.  The string of a
  date (\<^verbatim>\<open>str(datetime.date.today())\<close>) is a parameter.
\<close>

definition task_log_post :: "(int \<Rightarrow> string) \<Rightarrow> int \<Rightarrow> Researcher \<Rightarrow> string option \<Rightarrow> world \<Rightarrow>
    response \<times> world" where
  "task_log_post date_str today researcher task_id_value w =
     (if \<not> site_admin researcher then (Abort 403, w)
      else
        (case task_id_value of
           None \<Rightarrow> (Abort 404, w)
         | Some forest_task_id \<Rightarrow>
             let matches = (\<lambda>t. external_id t = forest_task_id \<and> status t = queued);
                 number_updated = length (filter matches (tasks w));
                 w1 = w\<lparr>tasks := map (\<lambda>t. if matches t
                           then t\<lparr>status := cancelled,
                                  stacktrace := Some (''Canceled by '' @ username researcher
                                                       @ '' on '' @ date_str today)\<rparr>
                           else t) (tasks w)\<rparr>
             in if number_updated > 0
                then (Flash_redirect ''Forest task successfully cancelled.'' ''success'', w1)
                else (Flash_redirect ''Sorry, we were unable to find or cancel this Forest task.''
                        ''warning'', w1)))"

section \<open>The system as a transition system\<close>

text \<open>
  The states the task store can reach from an empty table.  A step inserts a queued
  task under a fresh primary key (\<^verbatim>\<open>create_tasks\<close>, lines 130 to 137), cancels, scans for
  admission, runs the transaction of the coordinator, runs the rest of the coordinator
  for some in-memory tracker, or lets time pass.  The transaction is one step because
  it holds the row locks from its first query to its commit.
\<close>

inductive reachable :: "world \<Rightarrow> bool" where
  r_initial: "tasks w = [] \<Longrightarrow> reachable w"
| r_create: "reachable w \<Longrightarrow> status t = queued \<Longrightarrow> task_id t \<notin> task_id ` set (tasks w) \<Longrightarrow>
     reachable (w\<lparr>tasks := tasks w @ [t]\<rparr>)"
| r_cancel: "reachable w \<Longrightarrow> reachable (snd (task_log_post date_str today researcher v w))"
| r_admit: "reachable w \<Longrightarrow> reachable (create_forest_celery_tasks w)"
| r_transaction: "reachable w \<Longrightarrow> reachable (snd (celery_run_forest_txn e w i))"
| r_pipeline: "reachable w \<Longrightarrow> reachable (snd (celery_run_forest_rest e w tracker p))"
| r_tick: "reachable w \<Longrightarrow> reachable (w\<lparr>clock := clock w + d\<rparr>)"

definition running_for :: "nat \<Rightarrow> string \<Rightarrow> ForestTask list \<Rightarrow> ForestTask list" where
  "running_for p tree table =
     filter (\<lambda>t. participant t = p \<and> forest_tree t = tree \<and> status t = running) table"

definition running_keys :: "ForestTask list \<Rightarrow> (nat \<times> nat \<times> string) set" where
  "running_keys table =
     (\<lambda>t. (task_id t, participant t, forest_tree t)) ` {t \<in> set table. status t = running}"

section \<open>Concrete scenarios\<close>

text \<open>
  A small installation on which the theorems are exercised: every external call
  succeeds, the tree \<^verbatim>\<open>jasmine\<close> writes both cached files below the task's base path,
  the tree \<^verbatim>\<open>willow\<close> writes none, and \<^verbatim>\<open>save\<close> has Django's signature.
\<close>

definition ex_base :: "ForestTask \<Rightarrow> string" where
  "ex_base t = ''/tmp/forest/'' @ external_id t"

definition ex_gps :: "params \<Rightarrow> fs \<Rightarrow> exc option \<times> fs" where
  "ex_gps ps fsys =
     (case ps of
        [] \<Rightarrow> (Some KeyError, fsys)
      | (_, out) # _ \<Rightarrow> (None, fsys @ [(out @ ''/bv.pkl'', ''BV''), (out @ ''/mem.pkl'', ''MEM'')]))"

definition ex_env :: env where
  "ex_env =
     \<lparr>own_save_keywords = [],
      db_fault = (\<lambda>_. None),
      forest_dist_version = ''0.1.0'',
      ForestTree_jasmine = ''jasmine'',
      ForestTree_willow = ''willow'',
      gps_stats_main = ex_gps,
      log_stats_main = (\<lambda>ps fsys. (None, fsys)),
      params_dict = (\<lambda>t. Inr [(''output_folder'', ex_base t)]),
      json_dumps = (\<lambda>ps. Inr ''{}''),
      construct_summary_statistics = (\<lambda>t fsys. None),
      s3_retrieve = (\<lambda>path oid. Inr (''data of '' @ path)),
      decode_utf8 = Inr,
      determine_file_name = chunk_path,
      os_makedirs = (\<lambda>d. None),
      data_input_path = (\<lambda>t. ex_base t @ ''/data''),
      data_base_path = ex_base,
      all_bv_set_path = (\<lambda>t. ex_base t @ ''/bv.pkl''),
      all_memory_dict_path = (\<lambda>t. ex_base t @ ''/mem.pkl''),
      artifact_fault = (\<lambda>a. None),
      download_time = 7,
      analysis_time = 11\<rparr>"

definition ex_external_id :: "nat \<Rightarrow> string" where
  "ex_external_id i =
     (if i = 1 then ''id-1'' else if i = 2 then ''id-2'' else if i = 3 then ''id-3'' else ''id-n'')"

definition ex_task :: "nat \<Rightarrow> nat \<Rightarrow> string \<Rightarrow> int \<Rightarrow> int \<Rightarrow> Status \<Rightarrow> ForestTask" where
  "ex_task i p tree d1 d2 st =
     \<lparr>task_id = i, external_id = ex_external_id i, participant = p, forest_tree = tree,
      data_date_start = d1, data_date_end = d2, status = st, created_on = 100 + i,
      forest_version = [], process_start_time = None, process_download_end_time = None,
      process_end_time = None, total_file_size = None, stacktrace = None,
      params_dict_cache = None\<rparr>"

definition ex_chunk :: "nat \<Rightarrow> string \<Rightarrow> nat \<Rightarrow> Chunk" where
  "ex_chunk p path n =
     \<lparr>chunk_participant = p, file_size = n, chunk_path = path,
      study__object_id = ''study'', time_bin = 0\<rparr>"

definition ex_world :: "ForestTask list \<Rightarrow> Chunk list \<Rightarrow> world" where
  "ex_world ts cs =
     \<lparr>tasks = ts, chunks = cs, participants = [], studies = [], dispatched = [],
      files = [], artifacts = [], clock = 1000\<rparr>"

text \<open>The assignments of lines 76 to 78, as one update.\<close>

definition mark_running :: "env \<Rightarrow> world \<Rightarrow> ForestTask \<Rightarrow> ForestTask" where
  "mark_running e w t =
     t\<lparr>status := running, forest_version := forest_dist_version e,
       process_start_time := Some (clock w)\<rparr>"

text \<open>
  The invariant of the task table: primary keys are distinct and no (participant, tree)
  pair has two running tasks.  A change of the table is calm when it keeps the
  invariant and adds no running task.
\<close>

definition task_inv :: "ForestTask list \<Rightarrow> bool" where
  "task_inv table = (distinct (map task_id table) \<and>
      (\<forall>p tree. length (running_for p tree table) \<le> 1))"

definition calm :: "ForestTask list \<Rightarrow> ForestTask list \<Rightarrow> bool" where
  "calm table table' = ((task_inv table \<longrightarrow> task_inv table') \<and>
      running_keys table' \<subseteq> running_keys table)"

text \<open>
  A task covers a cell of the grid when it is of the cell's participant and tree and the
  cell's date lies in its inclusive date range.
\<close>

definition covers :: "nat \<times> string \<times> int \<Rightarrow> ForestTask \<Rightarrow> bool" where
  "covers k t = (case k of (p, tree, d) \<Rightarrow>
      participant t = p \<and> forest_tree t = tree \<and> data_date_start t \<le> d \<and> d \<le> data_date_end t)"

text \<open>
  A study with one participant and one successful task over January 1 to 5 of 2021, for
  the status grid; the study was created on December 31 of 2020.
\<close>

definition ex_grid_world :: world where
  "ex_grid_world =
     \<lparr>tasks = [ex_task 1 7 ''jasmine'' 18628 18632 success], chunks = [],
      participants = [\<lparr>participant_pk = 7, patient_id = ''p7'', participant_study = 1\<rparr>],
      studies = [\<lparr>study_pk = 1, study_created_on = 1609372800000000\<rparr>],
      dispatched = [], files = [], artifacts = [], clock = 1000\<rparr>"

text \<open>The table holds the row, and no other row under its primary key.\<close>

definition stored :: "ForestTask \<Rightarrow> ForestTask list \<Rightarrow> bool" where
  "stored t table = (t \<in> set table \<and> (\<forall>row \<in> set table. task_id row = task_id t \<longrightarrow> row = t))"

section \<open>Properties of the object-relational layer and of the transaction\<close>

lemma first_row_None: "first_row rows = None \<longleftrightarrow> rows = []"
  by (simp add: first_row_def split: list.splits)

lemma first_row_Some_mem: "first_row rows = Some r \<Longrightarrow> r \<in> set rows"
  by (auto simp: first_row_def split: list.splits)

lemma first_row_order_by_desc:
  assumes "first_row (order_by_desc key rows) = Some r"
  shows "r \<in> set rows \<and> (\<forall>r' \<in> set rows. key r' \<le> key r)"
proof -
  obtain ys where ys: "order_by_desc key rows = r # ys"
    using assms by (auto simp: first_row_def split: list.splits)
  have s: "sorted (map (\<lambda>r. - key r) (r # ys))"
    using ys[symmetric] by (simp add: order_by_desc_def)
  have m: "set (r # ys) = set rows"
    using ys[symmetric] by (simp add: order_by_desc_def)
  from s have "\<forall>r' \<in> set ys. key r' \<le> key r" by auto
  with m show ?thesis by auto
qed

lemma save_update_fields:
  "task_id t \<in> task_id ` set table \<Longrightarrow>
   save e None t (update_fields fs) table = Inr (map (update_row t fs) table)"
  by (simp add: save_def django_save_keywords_def)

lemma mem_siblings: "t \<in> set (siblings c table) \<longleftrightarrow>
   t \<in> set table \<and> participant t = participant c \<and> forest_tree t = forest_tree c"
  by (auto simp: siblings_def)

lemma update_row_mark_running:
  "update_row (mark_running e w sel) [F_status, F_forest_version, F_process_start_time] row =
     (if task_id row = task_id sel then mark_running e w row else row)"
  by (simp add: update_row_def mark_running_def)

lemma txn_cases:
  assumes "first_row (filter (\<lambda>t. task_id t = i) (tasks w)) = Some c"
  shows "celery_run_forest_txn e w i =
     (if \<exists>s \<in> set (siblings c (tasks w)). status s = running
      then (TxnReturned, enqueue_forest_task [task_id c] w)
      else case first_row (order_by_desc data_date_start
                               (filter (\<lambda>t. status t = queued) (siblings c (tasks w)))) of
             None \<Rightarrow> (TxnReturned, w)
           | Some sel \<Rightarrow> (TxnStarted (mark_running e w sel) (participant c),
                w\<lparr>tasks := map (\<lambda>row. if task_id row = task_id sel then mark_running e w row else row) (tasks w)\<rparr>))"
proof -
  have ex: "exists_row (filter (\<lambda>t. status t = running) (siblings c (tasks w))) \<longleftrightarrow>
        (\<exists>s \<in> set (siblings c (tasks w)). status s = running)"
    by (auto simp: exists_row_def filter_empty_conv)
  have sv: "\<And>sel. first_row (order_by_desc data_date_start
                               (filter (\<lambda>t. status t = queued) (siblings c (tasks w)))) = Some sel
     \<Longrightarrow> save e None (mark_running e w sel) (update_fields [F_status, F_forest_version, F_process_start_time]) (tasks w)
        = Inr (map (\<lambda>row. if task_id row = task_id sel then mark_running e w row else row) (tasks w))"
  proof -
    fix sel assume "first_row (order_by_desc data_date_start
                               (filter (\<lambda>t. status t = queued) (siblings c (tasks w)))) = Some sel"
    from first_row_order_by_desc[OF this] have "sel \<in> set (tasks w)" by (simp add: mem_siblings)
    then have "task_id (mark_running e w sel) \<in> task_id ` set (tasks w)" by (auto simp: mark_running_def)
    from save_update_fields[OF this] show "save e None (mark_running e w sel) (update_fields [F_status, F_forest_version, F_process_start_time]) (tasks w)
        = Inr (map (\<lambda>row. if task_id row = task_id sel then mark_running e w row else row) (tasks w))"
      by (simp add: update_row_mark_running cong: map_cong)
  qed
  show ?thesis
  proof (cases "\<exists>s \<in> set (siblings c (tasks w)). status s = running")
    case True
    then show ?thesis
      using ex by (simp add: celery_run_forest_txn_def assms)
  next
    case False
    show ?thesis
    proof (cases "first_row (order_by_desc data_date_start
                               (filter (\<lambda>t. status t = queued) (siblings c (tasks w))))")
      case None
      then show ?thesis
        using ex False by (simp add: celery_run_forest_txn_def assms)
    next
      case (Some sel)
      then show ?thesis
        using ex False sv[OF Some]
        by (simp add: celery_run_forest_txn_def assms mark_running_def[symmetric])
    qed
  qed
qed

lemma calm_refl: "calm table table"
  by (simp add: calm_def)

lemma calm_trans: "calm a b \<Longrightarrow> calm b c \<Longrightarrow> calm a c"
  by (auto simp: calm_def)

lemma length_filter_map_le:
  assumes "\<And>x. x \<in> set xs \<Longrightarrow> P (f x) \<Longrightarrow> P x"
  shows "length (filter P (map f xs)) \<le> length (filter P xs)"
  using assms by (induction xs) auto

lemma calm_map:
  assumes ids: "\<And>r. r \<in> set table \<Longrightarrow> task_id (f r) = task_id r"
    and st: "\<And>r. r \<in> set table \<Longrightarrow> status (f r) = running \<Longrightarrow>
               status r = running \<and> participant (f r) = participant r \<and> forest_tree (f r) = forest_tree r"
  shows "calm table (map f table)"
proof -
  have m: "map task_id (map f table) = map task_id table"
    using ids by (induction table) auto
  have l: "\<And>p tree. length (running_for p tree (map f table)) \<le> length (running_for p tree table)"
    unfolding running_for_def
    by (rule length_filter_map_le) (use st in auto)
  have k: "running_keys (map f table) \<subseteq> running_keys table"
    using st ids by (fastforce simp: running_keys_def)
  have "task_inv table \<Longrightarrow> task_inv (map f table)"
    unfolding task_inv_def using m l by (metis le_trans)
  with k show ?thesis by (simp add: calm_def)
qed

lemma fold_copy_field_keeps:
  assumes "F_status \<notin> set fs"
  shows "task_id (fold (copy_field t) fs r) = task_id r \<and>
         status (fold (copy_field t) fs r) = status r \<and>
         participant (fold (copy_field t) fs r) = participant r \<and>
         forest_tree (fold (copy_field t) fs r) = forest_tree r"
  using assms
proof (induction fs arbitrary: r)
  case Nil
  then show ?case by simp
next
  case (Cons f fs)
  then show ?case by (cases f) auto
qed

lemma calm_update_row:
  assumes "F_status \<notin> set fs"
  shows "calm table (map (update_row t fs) table)"
  by (rule calm_map) (auto simp: update_row_def fold_copy_field_keeps[OF assms] split: if_splits)

lemma calm_replace_row:
  assumes "status t \<noteq> running"
  shows "calm table (map (replace_row t) table)"
  by (rule calm_map) (use assms in \<open>auto simp: replace_row_def\<close>)

lemma calm_append:
  assumes "status t \<noteq> running" and "task_id t \<notin> task_id ` set table"
  shows "calm table (table @ [t])"
  using assms by (auto simp: calm_def task_inv_def running_for_def running_keys_def)

lemma calm_save:
  assumes "save e fault t kw table = Inr table'"
    and "status t \<noteq> running" and "F_status \<notin> set (kwarg_fields kw)"
  shows "calm table table'"
proof (cases "kwarg_name kw")
  case None
  with assms show ?thesis
    by (auto simp: save_def calm_replace_row calm_append split: option.splits if_splits)
next
  case (Some k)
  with assms show ?thesis
    by (auto simp: save_def calm_update_row split: option.splits if_splits)
qed

lemma calm_save_fields:
  assumes "save e fault t kw table = Inr table'"
    and "kwarg_name kw \<noteq> None" and "F_status \<notin> set (kwarg_fields kw)"
  shows "calm table table'"
  using assms by (auto simp: save_def calm_update_row split: option.splits if_splits)


lemma tasks_save_artifact_bytes [simp]:
  "tasks (snd (save_artifact_bytes e t a b w)) = tasks w"
  by (simp add: save_artifact_bytes_def split: option.splits)

lemma tasks_save_cached_files [simp]:
  "tasks (snd (save_cached_files e t w)) = tasks w"
proof -
  show ?thesis
    unfolding save_cached_files_def
    by (auto split: option.splits prod.splits
             dest!: arg_cong[where f="\<lambda>r. tasks (snd r)"])
qed

lemma tasks_try_lines_94_96 [simp]:
  "tasks (snd (snd (try_lines_94_96 e ps t w))) = tasks w"
  unfolding try_lines_94_96_def
  by (auto simp: Let_def split: option.splits prod.splits
           dest!: arg_cong[where f="\<lambda>r. tasks (snd r)"])

lemma calm_try_lines_91_96:
  "calm (tasks w) (tasks (snd (snd (try_lines_91_96 e t w))))"
  unfolding try_lines_91_96_def
  by (auto simp: Let_def calm_refl split: sum.splits
           intro!: calm_save_fields)

lemma calm_try_body:
  "calm (tasks w) (tasks (snd (snd (try_body e t cs w))))"
proof -
  obtain r fsys where c: "create_local_data_files e t cs (files w) = (r, fsys)"
    by (cases "create_local_data_files e t cs (files w)")
  show ?thesis
  proof (cases r)
    case (Some x)
    with c show ?thesis by (simp add: try_body_def calm_refl)
  next
    case None
    let ?w1 = "w\<lparr>files := fsys, clock := clock w + download_time e\<rparr>"
    let ?t1 = "t\<lparr>process_download_end_time := Some (clock ?w1)\<rparr>"
    show ?thesis
    proof (cases "save e (db_fault e Save_download_end) ?t1
                       (update_field [F_process_download_end_time]) (tasks ?w1)")
      case (Inl x)
      with c None show ?thesis by (simp add: try_body_def calm_refl)
    next
      case (Inr table)
      from calm_save_fields[OF Inr] have 1: "calm (tasks w) table" by simp
      have 2: "calm table (tasks (snd (snd (try_lines_91_96 e ?t1 (?w1\<lparr>tasks := table\<rparr>)))))"
        using calm_try_lines_91_96[of "?w1\<lparr>tasks := table\<rparr>" e ?t1] by simp
      from c None Inr calm_trans[OF 1 2] show ?thesis by (simp add: try_body_def)
    qed
  qed
qed

lemma calm_save_file_size_data:
  "save_file_size_data e w t p = Inr (t1, cs, w1) \<Longrightarrow> calm (tasks w) (tasks w1)"
  by (auto simp: save_file_size_data_def Let_def split: option.splits sum.splits
           intro!: calm_save_fields)

lemma calm_finish_run:
  "calm (tasks w) (tasks (snd (finish_run e r t w)))"
proof (cases "save e (db_fault e Save_final) (final_tracker r t w) no_kwargs (tasks w)")
  case (Inl x)
  then show ?thesis by (simp add: finish_run_def calm_refl)
next
  case (Inr table)
  have st: "status (final_tracker r t w) \<noteq> running"
    by (cases r) (simp_all add: final_tracker_def)
  from calm_save[OF Inr st] Inr show ?thesis
    by (simp add: finish_run_def clean_up_files_def)
qed

lemma calm_rest:
  "calm (tasks w) (tasks (snd (celery_run_forest_rest e w t p)))"
proof (cases "save_file_size_data e w t p")
  case (Inl x)
  then show ?thesis by (simp add: celery_run_forest_rest_def calm_refl)
next
  case (Inr y)
  then obtain t1 cs w1 where s: "save_file_size_data e w t p = Inr (t1, cs, w1)"
    by (cases y) auto
  obtain r t2 w2 where tb: "try_body e t1 cs w1 = (r, t2, w2)"
    by (cases "try_body e t1 cs w1") auto
  have 1: "calm (tasks w) (tasks w1)" by (rule calm_save_file_size_data[OF s])
  have 2: "calm (tasks w1) (tasks w2)" using calm_try_body[of w1 e t1 cs] tb by simp
  have 3: "calm (tasks w2) (tasks (snd (finish_run e r t2 w2)))" by (rule calm_finish_run)
  from calm_trans[OF calm_trans[OF 1 2] 3] s tb show ?thesis
    by (simp add: celery_run_forest_rest_def)
qed

lemma tasks_enqueue_forest_task [simp]: "tasks (enqueue_forest_task as w) = tasks w"
  by (simp add: enqueue_forest_task_def safe_apply_async_def)

lemma tasks_create_forest_celery_tasks [simp]: "tasks (create_forest_celery_tasks w) = tasks w"
proof -
  have "\<And>w. tasks (fold (\<lambda>tracker. enqueue_forest_task [task_id tracker]) ts w) = tasks w" for ts
    by (induction ts) auto
  then show ?thesis by (simp add: create_forest_celery_tasks_def)
qed

lemma first_row_filter_id:
  "first_row (filter (\<lambda>t. task_id t = i) table) = Some c \<Longrightarrow> c \<in> set table \<and> task_id c = i"
  by (drule first_row_Some_mem) simp

lemma running_for_empty_conv:
  "running_for p tree table = [] \<longleftrightarrow>
     \<not> (\<exists>s \<in> set table. participant s = p \<and> forest_tree s = tree \<and> status s = running)"
  by (auto simp: running_for_def filter_empty_conv)

lemma length_filter_mono:
  assumes "\<And>x. x \<in> set xs \<Longrightarrow> P x \<Longrightarrow> Q x"
  shows "length (filter P xs) \<le> length (filter Q xs)"
  using assms by (induction xs) auto

lemma distinct_key_count:
  "distinct (map f xs) \<Longrightarrow> length (filter (\<lambda>x. f x = k) xs) \<le> 1"
proof (induction xs)
  case Nil
  then show ?case by simp
next
  case (Cons x xs)
  show ?case
  proof (cases "f x = k")
    case True
    with Cons.prems have "filter (\<lambda>x. f x = k) xs = []"
      by (auto simp: filter_empty_conv image_iff)
    with True show ?thesis by simp
  next
    case False
    with Cons show ?thesis by simp
  qed
qed

lemma txn_started_inv:
  assumes inv: "task_inv table" and sel: "sel \<in> set table"
    and idle: "running_for (participant sel) (forest_tree sel) table = []"
  shows "task_inv (map (\<lambda>row. if task_id row = task_id sel then mark_running e w row else row) table)"
    (is "task_inv (map ?f table)")
proof -
  from inv have d: "distinct (map task_id table)" by (simp add: task_inv_def)
  have same: "\<And>r. r \<in> set table \<Longrightarrow> task_id r = task_id sel \<Longrightarrow> r = sel"
    using d sel by (auto simp: distinct_map inj_on_def)
  have ids: "map task_id (map ?f table) = map task_id table"
    by (induction table) (auto simp: mark_running_def)
  have cnt: "length (running_for p tree (map ?f table)) \<le> 1" for p tree
  proof (cases "p = participant sel \<and> tree = forest_tree sel")
    case True
    have "length (running_for p tree (map ?f table))
            \<le> length (filter (\<lambda>x. task_id x = task_id sel) (map ?f table))"
      unfolding running_for_def
    proof (rule length_filter_mono)
      fix x assume "x \<in> set (map ?f table)"
        and px: "participant x = p \<and> forest_tree x = tree \<and> status x = running"
      then obtain r where r: "r \<in> set table" and x: "x = ?f r" by auto
      show "task_id x = task_id sel"
      proof (rule ccontr)
        assume n: "task_id x \<noteq> task_id sel"
        with x have "x = r" by (auto simp: mark_running_def split: if_splits)
        with px r True idle show False by (auto simp: running_for_empty_conv)
      qed
    qed
    also have "\<dots> \<le> 1"
    proof (rule distinct_key_count)
      show "distinct (map task_id (map ?f table))" unfolding ids by (rule d)
    qed
    finally show ?thesis .
  next
    case False
    have "length (running_for p tree (map ?f table)) \<le> length (running_for p tree table)"
      unfolding running_for_def
    proof (rule length_filter_map_le)
      fix x assume x: "x \<in> set table"
        and px: "participant (?f x) = p \<and> forest_tree (?f x) = tree \<and> status (?f x) = running"
      show "participant x = p \<and> forest_tree x = tree \<and> status x = running"
      proof (cases "task_id x = task_id sel")
        case True
        with same[OF x] have "x = sel" by simp
        with px False show ?thesis by (simp add: mark_running_def)
      next
        case False
        with px show ?thesis by simp
      qed
    qed
    with inv show ?thesis by (simp add: task_inv_def) (meson le_trans)
  qed
  have "distinct (map task_id (map ?f table))" unfolding ids by (rule d)
  with cnt show ?thesis unfolding task_inv_def by blast
qed

lemma txn_inv:
  assumes "task_inv (tasks w)"
  shows "task_inv (tasks (snd (celery_run_forest_txn e w i)))"
proof (cases "first_row (filter (\<lambda>t. task_id t = i) (tasks w))")
  case None
  with assms show ?thesis by (simp add: celery_run_forest_txn_def)
next
  case (Some c)
  show ?thesis
  proof (cases "\<exists>s \<in> set (siblings c (tasks w)). status s = running")
    case True
    with assms show ?thesis by (simp add: txn_cases[OF Some])
  next
    case False
    show ?thesis
    proof (cases "first_row (order_by_desc data_date_start
                    (filter (\<lambda>t. status t = queued) (siblings c (tasks w))))")
      case None
      with assms False show ?thesis by (simp add: txn_cases[OF Some])
    next
      case (Some sel)
      from first_row_order_by_desc[OF Some]
      have mem: "sel \<in> set (tasks w)" and sib: "participant sel = participant c"
        "forest_tree sel = forest_tree c"
        by (auto simp: mem_siblings)
      from False sib have idle: "running_for (participant sel) (forest_tree sel) (tasks w) = []"
        by (auto simp: running_for_empty_conv mem_siblings)
      from txn_started_inv[OF assms mem idle, of e w] False Some show ?thesis
        by (simp add: txn_cases[OF \<open>first_row (filter (\<lambda>t. task_id t = i) (tasks w)) = Some c\<close>])
    qed
  qed
qed

lemma txn_new_running:
  assumes d: "distinct (map task_id (tasks w))"
    and k: "(j, p, tree) \<in> running_keys (tasks (snd (celery_run_forest_txn e w i)))"
    and new: "(j, p, tree) \<notin> running_keys (tasks w)"
  shows "running_for p tree (tasks w) = []"
proof (cases "first_row (filter (\<lambda>t. task_id t = i) (tasks w))")
  case None
  with k new show ?thesis by (simp add: celery_run_forest_txn_def)
next
  case (Some c)
  show ?thesis
  proof (cases "\<exists>s \<in> set (siblings c (tasks w)). status s = running")
    case True
    with k new show ?thesis by (simp add: txn_cases[OF Some])
  next
    case False
    show ?thesis
    proof (cases "first_row (order_by_desc data_date_start
                    (filter (\<lambda>t. status t = queued) (siblings c (tasks w))))")
      case None
      with k new False show ?thesis by (simp add: txn_cases[OF Some])
    next
      case (Some sel)
      from first_row_order_by_desc[OF Some]
      have mem: "sel \<in> set (tasks w)" and sib: "participant sel = participant c"
        "forest_tree sel = forest_tree c"
        by (auto simp: mem_siblings)
      from False sib have idle: "running_for (participant sel) (forest_tree sel) (tasks w) = []"
        by (auto simp: running_for_empty_conv mem_siblings)
      have same: "\<And>r. r \<in> set (tasks w) \<Longrightarrow> task_id r = task_id sel \<Longrightarrow> r = sel"
        using d mem by (auto simp: distinct_map inj_on_def)
      let ?f = "\<lambda>row. if task_id row = task_id sel then mark_running e w row else row"
      from False Some
      have tw: "tasks (snd (celery_run_forest_txn e w i)) = map ?f (tasks w)"
        by (simp add: txn_cases[OF \<open>first_row (filter (\<lambda>t. task_id t = i) (tasks w)) = Some c\<close>])
      from k obtain r where r: "r \<in> set (tasks w)"
        and x: "j = task_id (?f r)" "p = participant (?f r)" "tree = forest_tree (?f r)"
        and st: "status (?f r) = running"
        unfolding tw running_keys_def by auto
      show ?thesis
      proof (cases "task_id r = task_id sel")
        case True
        with same[OF r] x idle show ?thesis by (simp add: mark_running_def)
      next
        case False
        with r x st new show ?thesis by (auto simp: running_keys_def)
      qed
    qed
  qed
qed


lemma calm_task_log_post:
  "calm (tasks w) (tasks (snd (task_log_post date_str today researcher v w)))"
proof (cases "site_admin researcher")
  case False
  then show ?thesis by (simp add: task_log_post_def calm_refl)
next
  case True
  show ?thesis
  proof (cases v)
    case None
    with True show ?thesis by (simp add: task_log_post_def calm_refl)
  next
    case (Some x)
    with True show ?thesis
      by (auto simp: task_log_post_def Let_def intro!: calm_map split: if_splits)
  qed
qed

lemma reachable_task_inv: "reachable w \<Longrightarrow> task_inv (tasks w)"
proof (induction rule: reachable.induct)
  case (r_initial w)
  then show ?case by (simp add: task_inv_def running_for_def)
next
  case (r_create w t)
  then show ?case using calm_append[of t "tasks w"] by (simp add: calm_def)
next
  case (r_cancel w date_str today researcher v)
  then show ?case using calm_task_log_post[of w date_str today researcher v] by (simp add: calm_def)
next
  case (r_admit w)
  then show ?case by simp
next
  case (r_transaction w e i)
  from txn_inv[OF r_transaction.IH] show ?case .
next
  case (r_pipeline w e tracker p)
  then show ?case using calm_rest[of w e tracker p] by (simp add: calm_def)
next
  case (r_tick w d)
  then show ?case by simp
qed

lemma expiry_bounds: "now + 270 * second < expiry now \<and> expiry now \<le> now + 330 * second"
proof -
  let ?x = "now + 5 * minute"
  have m: "0 < minute" by (simp add: minute_def second_def)
  have e: "(?x div minute) * minute + ?x mod minute = ?x" by (rule div_mult_mod_eq)
  have l: "?x mod minute < minute" by (rule mod_less_divisor[OF m])
  have ms: "minute = 60 * second" by (simp add: minute_def)
  from e l ms show ?thesis unfolding expiry_def by linarith
qed

lemma fold_enqueue_forest_task:
  "fold (\<lambda>tracker. enqueue_forest_task [task_id tracker]) ts w =
     w\<lparr>dispatched := dispatched w @ map (\<lambda>t. updated_kwargs (clock w) [task_id t]) ts\<rparr>"
proof (induction ts arbitrary: w)
  case Nil
  show ?case by simp
next
  case (Cons t ts)
  show ?case
    by (simp add: Cons.IH) (simp add: enqueue_forest_task_def safe_apply_async_def)
qed

lemma map_if_none:
  "(\<And>t. t \<in> set ts \<Longrightarrow> \<not> P t) \<Longrightarrow> map (\<lambda>t. if P t then g t else t) ts = ts"
  by (induction ts) auto

lemma task_log_post_unmatched:
  assumes "site_admin researcher"
    and "\<And>t. t \<in> set (tasks w) \<Longrightarrow> \<not> (external_id t = x \<and> status t = queued)"
  shows "task_log_post date_str today researcher (Some x) w =
     (Flash_redirect ''Sorry, we were unable to find or cancel this Forest task.'' ''warning'', w)"
proof -
  have f: "filter (\<lambda>t. external_id t = x \<and> status t = queued) (tasks w) = []"
    using assms(2) by (auto simp: filter_empty_conv)
  have m: "map (\<lambda>t. if external_id t = x \<and> status t = queued
                    then t\<lparr>status := cancelled,
                           stacktrace := Some (''Canceled by '' @ username researcher
                                                       @ '' on '' @ date_str today)\<rparr>
                    else t) (tasks w) = tasks w"
    by (rule map_if_none) (use assms(2) in blast)
  show ?thesis
    using assms(1) by (simp add: task_log_post_def Let_def f m)
qed

lemma fold_store_apply:
  "fold (\<lambda>date r. r((p, tree, date) \<mapsto> s)) ds res k =
     (if k \<in> (\<lambda>d. (p, tree, d)) ` set ds then Some s else res k)"
  by (induction ds arbitrary: res) auto

lemma record_tracker_apply:
  "record_tracker t res k = (if covers k t then Some (status t) else res k)"
  unfolding record_tracker_def fold_store_apply daterange_def covers_def
  by (cases k) auto

lemma fold_record_tracker:
  "fold record_tracker ts res k =
     (if filter (covers k) ts = [] then res k else Some (status (last (filter (covers k) ts))))"
proof (induction ts rule: rev_induct)
  case Nil
  show ?case by simp
next
  case (snoc t ts)
  have step: "fold record_tracker (ts @ [t]) res k =
      (if covers k t then Some (status t) else fold record_tracker ts res k)"
    by (simp only: fold_append fold_simps comp_apply record_tracker_apply id_apply)
  show ?case
  proof (cases "covers k t")
    case True
    then show ?thesis unfolding step by simp
  next
    case False
    then show ?thesis unfolding step snoc.IH by simp
  qed
qed

lemma sorted_last_max:
  "sorted (map f xs) \<Longrightarrow> x \<in> set xs \<Longrightarrow> f x \<le> f (last xs)"
proof (induction xs)
  case Nil
  then show ?case by simp
next
  case (Cons a xs)
  then show ?case by (cases xs) auto
qed

lemma sorted_map_filter: "sorted (map f xs) \<Longrightarrow> sorted (map f (filter P xs))"
  by (induction xs) auto

lemma grid_cell:
  fixes table :: "ForestTask list"
  assumes pk: "p \<in> pks"
  defines "res \<equiv> fold record_tracker (sort_key created_on (filter (\<lambda>t. participant t \<in> pks) table)) Map.empty"
  shows "((\<forall>t \<in> set table. \<not> covers (p, tree, d) t) \<longrightarrow> lookup_default res (p, tree, d) = Inl ''--'')
     \<and> ((\<exists>t \<in> set table. covers (p, tree, d) t) \<longrightarrow>
          (\<exists>t \<in> set table. covers (p, tree, d) t \<and> lookup_default res (p, tree, d) = Inr (status t)
              \<and> (\<forall>u \<in> set table. covers (p, tree, d) u \<longrightarrow> created_on u \<le> created_on t)))"
proof -
  let ?ts = "sort_key created_on (filter (\<lambda>t. participant t \<in> pks) table)"
  let ?cs = "filter (covers (p, tree, d)) ?ts"
  have set_cs: "set ?cs = {t \<in> set table. covers (p, tree, d) t}"
    using pk by (auto simp: covers_def)
  have srt: "sorted (map created_on ?cs)"
    by (rule sorted_map_filter) simp
  show ?thesis
  proof (cases ?cs)
    case Nil
    then have "\<forall>t \<in> set table. \<not> covers (p, tree, d) t"
      using set_cs by (metis (mono_tags, lifting) empty_iff list.set(1) mem_Collect_eq)
    moreover have "lookup_default res (p, tree, d) = Inl ''--''"
      using Nil by (simp add: lookup_default_def res_def fold_record_tracker)
    ultimately show ?thesis by blast
  next
    case (Cons c cs)
    let ?t = "last ?cs"
    have ne: "?cs \<noteq> []" using Cons by simp
    have mem: "?t \<in> set ?cs" using ne by (rule last_in_set)
    then have t1: "?t \<in> set table" and t2: "covers (p, tree, d) ?t"
      using set_cs by blast+
    have val: "lookup_default res (p, tree, d) = Inr (status ?t)"
      using ne by (simp add: lookup_default_def res_def fold_record_tracker)
    have mx: "\<forall>u \<in> set table. covers (p, tree, d) u \<longrightarrow> created_on u \<le> created_on ?t"
    proof (intro ballI impI)
      fix u assume "u \<in> set table" and "covers (p, tree, d) u"
      then have "u \<in> set ?cs" using set_cs by blast
      from sorted_last_max[OF srt this] show "created_on u \<le> created_on ?t" .
    qed
    from t1 t2 val mx show ?thesis by blast
  qed
qed

text \<open>The definitions that a run on a concrete state unfolds.\<close>

lemmas orm_defs = first_row_def exists_row_def order_by_desc_def Sum_file_size_def save_def
  django_save_keywords_def update_row_def replace_row_def siblings_def

lemmas run_defs = celery_run_forest_def celery_run_forest_txn_def celery_run_forest_rest_def
  save_file_size_data_def try_body_def try_lines_91_96_def try_lines_94_96_def
  TREE_TO_FOREST_FUNCTION_def save_cached_files_def save_artifact_bytes_def put_artifact_def
  finish_run_def
  final_tracker_def clean_up_files_def below_def local_file_name_def path_join_def dirname_def
  open_x_def path_exists_def f_write_def format_exc_def Let_def

lemmas ex_defs = ex_env_def ex_world_def ex_task_def ex_chunk_def ex_external_id_def
  ex_base_def ex_gps_def

text \<open>
  A task id with no row: \<^verbatim>\<open>.first()\<close> yields None, and line 50 reads an attribute of it.
  The exception leaves the transaction, which has changed nothing.
\<close>

lemma celery_run_forest_not_found:
  "first_row (filter (\<lambda>t. task_id t = i) (tasks w)) = None \<Longrightarrow>
   celery_run_forest e w i = (Some AttributeError, w)"
  by (simp add: celery_run_forest_def celery_run_forest_txn_def)

lemma paths_f_write [simp]: "fst ` set (f_write fsys p s) = fst ` set fsys"
  by (force simp: f_write_def image_iff split: if_splits)

lemma f_write_keeps:
  "p \<notin> fst ` set fsys \<Longrightarrow> set fsys \<subseteq> set (f_write (fsys @ [(p, [])]) p s)"
  by (force simp: f_write_def image_iff)

lemma create_local_data_files_keeps:
  "set fsys \<subseteq> set (snd (create_local_data_files e t cs fsys))"
proof (induction cs arbitrary: fsys)
  case Nil
  show ?case by simp
next
  case (Cons c cs)
  let ?fn = "local_file_name e t c"
  show ?case
  proof (cases "s3_retrieve e (chunk_path c) (study__object_id c)")
    case (Inl x)
    then show ?thesis by simp
  next
    case (Inr contents)
    show ?thesis
    proof (cases "os_makedirs e (dirname ?fn)")
      case (Some x)
      with Inr show ?thesis by simp
    next
      case None
      show ?thesis
      proof (cases "path_exists fsys ?fn")
        case True
        with Inr None show ?thesis by (simp add: open_x_def Let_def)
      next
        case False
        show ?thesis
        proof (cases "decode_utf8 e contents")
          case (Inl x)
          with Inr None False show ?thesis by (auto simp: open_x_def Let_def)
        next
          case (Inr decoded)
          from False have "set fsys \<subseteq> set (f_write (fsys @ [(?fn, [])]) ?fn decoded)"
            by (intro f_write_keeps) (simp add: path_exists_def)
          also have "\<dots> \<subseteq> set (snd (create_local_data_files e t cs
                                      (f_write (fsys @ [(?fn, [])]) ?fn decoded)))"
            by (rule Cons.IH)
          finally show ?thesis
            using \<open>s3_retrieve e (chunk_path c) (study__object_id c) = Inr contents\<close> None False Inr
            by (simp add: open_x_def Let_def)
        qed
      qed
    qed
  qed
qed

lemma create_local_data_files_clash:
  assumes "(\<exists>c \<in> set cs. path_exists fsys (local_file_name e t c))
           \<or> \<not> distinct (map (local_file_name e t) cs)"
  shows "fst (create_local_data_files e t cs fsys) \<noteq> None"
  using assms
proof (induction cs arbitrary: fsys)
  case Nil
  then show ?case by simp
next
  case (Cons c cs)
  let ?fn = "local_file_name e t c"
  show ?case
  proof (cases "s3_retrieve e (chunk_path c) (study__object_id c)")
    case (Inl x)
    then show ?thesis by simp
  next
    case (Inr contents)
    show ?thesis
    proof (cases "os_makedirs e (dirname ?fn)")
      case (Some x)
      with Inr show ?thesis by simp
    next
      case None
      show ?thesis
      proof (cases "path_exists fsys ?fn")
        case True
        with Inr None show ?thesis by (simp add: open_x_def Let_def)
      next
        case False
        show ?thesis
        proof (cases "decode_utf8 e contents")
          case (Inl x)
          with Inr None False show ?thesis by (simp add: open_x_def Let_def)
        next
          case (Inr decoded)
          let ?fsys2 = "f_write (fsys @ [(?fn, [])]) ?fn decoded"
          have paths: "fst ` set ?fsys2 = insert ?fn (fst ` set fsys)" by simp
          have "(\<exists>c' \<in> set cs. path_exists ?fsys2 (local_file_name e t c'))
                 \<or> \<not> distinct (map (local_file_name e t) cs)"
          proof (cases "distinct (map (local_file_name e t) cs)")
            case False
            then show ?thesis by simp
          next
            case True
            from Cons.prems show ?thesis
            proof
              assume "\<exists>c' \<in> set (c # cs). path_exists fsys (local_file_name e t c')"
              with \<open>\<not> path_exists fsys ?fn\<close>
              obtain c' where "c' \<in> set cs" "path_exists fsys (local_file_name e t c')" by auto
              then show ?thesis unfolding path_exists_def paths by blast
            next
              assume "\<not> distinct (map (local_file_name e t) (c # cs))"
              with True have "?fn \<in> local_file_name e t ` set cs" by simp
              then obtain c' where "c' \<in> set cs" "local_file_name e t c' = ?fn" by auto
              then show ?thesis unfolding path_exists_def paths by force
            qed
          qed
          from Cons.IH[OF this]
          show ?thesis
            using \<open>s3_retrieve e (chunk_path c) (study__object_id c) = Inr contents\<close> None False Inr
            by (simp add: open_x_def Let_def)
        qed
      qed
    qed
  qed
qed

lemma save_no_kwargs_stored:
  assumes "save e None t no_kwargs table = Inr table'"
  shows "stored t table'"
proof (cases "task_id t \<in> task_id ` set table")
  case True
  with assms have "table' = map (replace_row t) table" by (simp add: save_def)
  with True show ?thesis by (auto simp: stored_def replace_row_def)
next
  case False
  with assms have "table' = table @ [t]" by (simp add: save_def)
  with False show ?thesis by (auto simp: stored_def image_iff)
qed

lemma finish_run_ok:
  assumes "db_fault e Save_final = None"
  shows "\<exists>table. finish_run e r t w =
           (None, clean_up_files e (final_tracker r t w) (w\<lparr>tasks := table\<rparr>))
         \<and> stored (final_tracker r t w) table"
proof -
  obtain table where s: "save e None (final_tracker r t w) no_kwargs (tasks w) = Inr table"
    by (cases "task_id (final_tracker r t w) \<in> task_id ` set (tasks w)") (simp_all add: save_def)
  from save_no_kwargs_stored[OF s] s assms show ?thesis
    by (auto simp: finish_run_def)
qed

lemma task_id_save_file_size_data:
  "save_file_size_data e w t p = Inr (t1, cs, w1) \<Longrightarrow>
     task_id t1 = task_id t \<and> files w1 = files w \<and> artifacts w1 = artifacts w \<and> clock w1 = clock w
     \<and> t1 = t\<lparr>total_file_size := Sum_file_size (filter (\<lambda>c. chunk_participant c = p) (chunks w))\<rparr>
     \<and> cs = filter (\<lambda>c. chunk_participant c = p) (chunks w)"
  by (auto simp: save_file_size_data_def Let_def split: option.splits sum.splits)


lemma try_body_download_failed:
  "create_local_data_files e t cs (files w) = (Some x, fsys) \<Longrightarrow>
   try_body e t cs w = (Some x, t, w\<lparr>files := fsys, clock := clock w + download_time e\<rparr>)"
  by (simp add: try_body_def)

lemma rest_unfold:
  "save_file_size_data e w t p = Inr (t1, cs, w1) \<Longrightarrow> try_body e t1 cs w1 = (r, t2, w2) \<Longrightarrow>
   celery_run_forest_rest e w t p = finish_run e r t2 w2"
  by (simp add: celery_run_forest_rest_def)

lemma tasks_clean_up_files [simp]: "tasks (clean_up_files e t w) = tasks w"
  by (simp add: clean_up_files_def)

section \<open>The claims\<close>

text \<open>
  Claim C1.  In every state the system can reach, each (participant, tree) pair has at
  most one running task.  When the coordinator finds the candidate and a task of the
  candidate's pair is running, the run returns normally, its only effect is one more
  dispatch of the candidate's id, and the task table is unchanged.  A task that the
  transaction newly marks as running belongs to a pair that had no running task when
  the transaction looked, and the rest of the coordinator marks none.
\<close>

theorem C1_one_running_per_pair:
  "(reachable w \<longrightarrow> length (running_for p tree (tasks w)) \<le> 1)
   \<and> (first_row (filter (\<lambda>t. task_id t = i) (tasks w)) = Some c
        \<and> (\<exists>s \<in> set (siblings c (tasks w)). status s = running)
      \<longrightarrow> celery_run_forest e w i = (None, enqueue_forest_task [i] w)
          \<and> tasks (enqueue_forest_task [i] w) = tasks w)
   \<and> (reachable w \<longrightarrow>
        (\<forall>k \<in> running_keys (tasks (snd (celery_run_forest_txn e w i))) - running_keys (tasks w).
            running_for (fst (snd k)) (snd (snd k)) (tasks w) = []))
   \<and> running_keys (tasks (snd (celery_run_forest_rest e w tracker p'))) \<subseteq> running_keys (tasks w)"
proof (intro conjI impI ballI)
  assume "reachable w"
  from reachable_task_inv[OF this] show "length (running_for p tree (tasks w)) \<le> 1"
    by (simp add: task_inv_def)
next
  assume a: "first_row (filter (\<lambda>t. task_id t = i) (tasks w)) = Some c
        \<and> (\<exists>s \<in> set (siblings c (tasks w)). status s = running)"
  then have f: "first_row (filter (\<lambda>t. task_id t = i) (tasks w)) = Some c" by simp
  from first_row_filter_id[OF f] have "task_id c = i" by simp
  with a show "celery_run_forest e w i = (None, enqueue_forest_task [i] w)"
    by (simp add: celery_run_forest_def txn_cases[OF f])
next
  show "tasks (enqueue_forest_task [i] w) = tasks w" by simp
next
  fix k
  assume r: "reachable w"
    and k: "k \<in> running_keys (tasks (snd (celery_run_forest_txn e w i))) - running_keys (tasks w)"
  from reachable_task_inv[OF r] have d: "distinct (map task_id (tasks w))"
    by (simp add: task_inv_def)
  obtain j q tr where kk: "k = (j, q, tr)" by (cases k) auto
  from txn_new_running[OF d, of j q tr e i] k kk
  show "running_for (fst (snd k)) (snd (snd k)) (tasks w) = []" by simp
next
  from calm_rest[of w e tracker p']
  show "running_keys (tasks (snd (celery_run_forest_rest e w tracker p'))) \<subseteq> running_keys (tasks w)"
    by (simp add: calm_def)
qed


theorem C1_one_running_per_pair_witness:
  "reachable (ex_world [ex_task 1 7 ''jasmine'' 18628 18630 queued,
                        (ex_task 2 7 ''jasmine'' 18637 18640 running)
                          \<lparr>forest_version := ''0.1.0'', process_start_time := Some 1000\<rparr>] [])
   \<and> length (running_for 7 ''jasmine''
        [ex_task 1 7 ''jasmine'' 18628 18630 queued,
         (ex_task 2 7 ''jasmine'' 18637 18640 running)
            \<lparr>forest_version := ''0.1.0'', process_start_time := Some 1000\<rparr>]) = 1
   \<and> celery_run_forest ex_env
        (ex_world [ex_task 1 7 ''jasmine'' 18628 18630 queued,
                   (ex_task 2 7 ''jasmine'' 18637 18640 running)
                     \<lparr>forest_version := ''0.1.0'', process_start_time := Some 1000\<rparr>] []) 1
       = (None,
          (ex_world [ex_task 1 7 ''jasmine'' 18628 18630 queued,
                     (ex_task 2 7 ''jasmine'' 18637 18640 running)
                       \<lparr>forest_version := ''0.1.0'', process_start_time := Some 1000\<rparr>] [])
            \<lparr>dispatched := [\<lparr>args = [1], expires = 330000000, max_retries = 0, retry = False,
                 task_publish_retry = False, task_track_started = True\<rparr>]\<rparr>)"
proof -
  let ?t1 = "ex_task 1 7 ''jasmine'' 18628 18630 queued"
  let ?t2 = "ex_task 2 7 ''jasmine'' 18637 18640 queued"
  let ?r2 = "(ex_task 2 7 ''jasmine'' 18637 18640 running)
                \<lparr>forest_version := ''0.1.0'', process_start_time := Some 1000\<rparr>"
  let ?w1 = "ex_world [?t1, ?r2] []"
  have "reachable (ex_world [] [])"
    by (rule r_initial) (simp add: ex_world_def)
  from r_create[OF this, of ?t1] have "reachable (ex_world [?t1] [])"
    by (simp add: ex_world_def ex_task_def)
  from r_create[OF this, of ?t2] have "reachable (ex_world [?t1, ?t2] [])"
    by (simp add: ex_world_def ex_task_def)
  from r_transaction[OF this, of ex_env 1] have r: "reachable ?w1"
    by (simp add: celery_run_forest_txn_def first_row_def siblings_def exists_row_def
        order_by_desc_def save_def django_save_keywords_def update_row_def Let_def
        ex_world_def ex_task_def ex_env_def)
  have found: "first_row (filter (\<lambda>t. task_id t = 1) (tasks ?w1)) = Some ?t1"
    by (simp add: first_row_def ex_world_def ex_task_def)
  have busy: "\<exists>s \<in> set (siblings ?t1 (tasks ?w1)). status s = running"
    by (simp add: siblings_def ex_world_def ex_task_def)
  note c1 = C1_one_running_per_pair[of ?w1 7 "''jasmine''" 1 ?t1 ex_env ?r2 7]
  from c1 r have le: "length (running_for 7 ''jasmine'' (tasks ?w1)) \<le> 1" by blast
  have "running_for 7 ''jasmine'' (tasks ?w1) \<noteq> []"
    by (simp add: running_for_def ex_world_def ex_task_def)
  with le have one: "length (running_for 7 ''jasmine'' (tasks ?w1)) = 1"
    by (cases "running_for 7 ''jasmine'' (tasks ?w1)") auto
  from c1 found busy have "celery_run_forest ex_env ?w1 1 = (None, enqueue_forest_task [1] ?w1)"
    by blast
  moreover have "enqueue_forest_task [1] ?w1 =
     ?w1\<lparr>dispatched := [\<lparr>args = [1], expires = 330000000, max_retries = 0, retry = False,
                 task_publish_retry = False, task_track_started = True\<rparr>]\<rparr>"
    by (simp add: enqueue_forest_task_def updated_kwargs_def safe_apply_async_def expiry_def
        minute_def second_def ex_world_def)
  ultimately show ?thesis using r one by (simp add: ex_world_def)
qed

text \<open>
  Claim C2.  When the coordinator finds the candidate, no task of the candidate's
  (participant, tree) pair is running and at least one is queued, the transaction starts
  a queued task of that pair whose \<^verbatim>\<open>data_date_start\<close> is at least that of every queued
  task of the pair, and marks exactly the rows of its primary key as running.  The
  witness is the example of the specification: of three queued tasks starting on
  January 1, 10 and 5 of 2021 (days 18628, 18637 and 18632) the one of January 10 is
  started.
\<close>

theorem C2_newest_data_first:
  assumes found: "first_row (filter (\<lambda>t. task_id t = i) (tasks w)) = Some c"
    and idle: "\<not> (\<exists>s \<in> set (siblings c (tasks w)). status s = running)"
    and some_queued: "\<exists>q \<in> set (siblings c (tasks w)). status q = queued"
  shows "\<exists>sel. sel \<in> set (siblings c (tasks w)) \<and> status sel = queued \<and>
           (\<forall>q \<in> set (siblings c (tasks w)). status q = queued \<longrightarrow>
                data_date_start q \<le> data_date_start sel) \<and>
           celery_run_forest_txn e w i =
             (TxnStarted (mark_running e w sel) (participant c),
              w\<lparr>tasks := map (\<lambda>row. if task_id row = task_id sel
                                    then mark_running e w row else row) (tasks w)\<rparr>)"
proof -
  let ?qs = "filter (\<lambda>t. status t = queued) (siblings c (tasks w))"
  from some_queued have "set (order_by_desc data_date_start ?qs) \<noteq> {}"
    by (auto simp: order_by_desc_def)
  then have "order_by_desc data_date_start ?qs \<noteq> []"
    by auto
  then obtain sel where sel: "first_row (order_by_desc data_date_start ?qs) = Some sel"
    by (cases "order_by_desc data_date_start ?qs") (auto simp: first_row_def)
  from first_row_order_by_desc[OF sel]
  have mem: "sel \<in> set (siblings c (tasks w))" and q: "status sel = queued"
    and mx: "\<forall>q \<in> set (siblings c (tasks w)). status q = queued \<longrightarrow>
                data_date_start q \<le> data_date_start sel"
    by auto
  from txn_cases[OF found, of e] idle sel
  have "celery_run_forest_txn e w i =
             (TxnStarted (mark_running e w sel) (participant c),
              w\<lparr>tasks := map (\<lambda>row. if task_id row = task_id sel
                                    then mark_running e w row else row) (tasks w)\<rparr>)"
    by simp
  with mem q mx show ?thesis by blast
qed

theorem C2_newest_data_first_witness:
  "celery_run_forest_txn ex_env
     (ex_world [ex_task 1 7 ''jasmine'' 18628 18630 queued,
                ex_task 2 7 ''jasmine'' 18637 18640 queued,
                ex_task 3 7 ''jasmine'' 18632 18635 queued] []) 1
   = (TxnStarted ((ex_task 2 7 ''jasmine'' 18637 18640 running)
                    \<lparr>forest_version := ''0.1.0'', process_start_time := Some 1000\<rparr>) 7,
      ex_world [ex_task 1 7 ''jasmine'' 18628 18630 queued,
                (ex_task 2 7 ''jasmine'' 18637 18640 running)
                    \<lparr>forest_version := ''0.1.0'', process_start_time := Some 1000\<rparr>,
                ex_task 3 7 ''jasmine'' 18632 18635 queued] [])"
proof -
  let ?t1 = "ex_task 1 7 ''jasmine'' 18628 18630 queued"
  let ?t2 = "ex_task 2 7 ''jasmine'' 18637 18640 queued"
  let ?t3 = "ex_task 3 7 ''jasmine'' 18632 18635 queued"
  let ?w = "ex_world [?t1, ?t2, ?t3] []"
  have found: "first_row (filter (\<lambda>t. task_id t = 1) (tasks ?w)) = Some ?t1"
    by (simp add: first_row_def ex_world_def ex_task_def)
  have idle: "\<not> (\<exists>s \<in> set (siblings ?t1 (tasks ?w)). status s = running)"
    by (simp add: siblings_def ex_world_def ex_task_def)
  have some_queued: "\<exists>q \<in> set (siblings ?t1 (tasks ?w)). status q = queued"
    by (simp add: siblings_def ex_world_def ex_task_def)
  from C2_newest_data_first[OF found idle some_queued, of ex_env]
  obtain sel where mem: "sel \<in> set (siblings ?t1 (tasks ?w))"
    and mx: "\<forall>q \<in> set (siblings ?t1 (tasks ?w)). status q = queued \<longrightarrow>
                data_date_start q \<le> data_date_start sel"
    and r: "celery_run_forest_txn ex_env ?w 1 =
             (TxnStarted (mark_running ex_env ?w sel) (participant ?t1),
              ?w\<lparr>tasks := map (\<lambda>row. if task_id row = task_id sel
                                    then mark_running ex_env ?w row else row) (tasks ?w)\<rparr>)"
    by auto
  from mx have "data_date_start ?t2 \<le> data_date_start sel"
    by (simp add: siblings_def ex_world_def ex_task_def)
  with mem have "sel = ?t2"
    by (auto simp: siblings_def ex_world_def ex_task_def)
  with r show ?thesis by (simp add: mark_running_def ex_world_def ex_task_def ex_env_def)
qed

text \<open>
  Claim C9.  Every dispatch, by the admission scan or by the coordinator on a conflict,
  appends one submission that carries the task id, an expiry more than four and a half
  and at most five and a half minutes after the current time, \<^verbatim>\<open>max_retries\<close> zero and
  both retry switches off.  The admission scan submits the ids of the queued rows, one
  submission per row in table order, and nothing else.  That the backend drops a
  submission after its expiry is the meaning of Celery's \<^verbatim>\<open>expires\<close> option and lies
  outside the sources.
\<close>

theorem C9_dispatch_policy:
  "enqueue_forest_task as w = w\<lparr>dispatched := dispatched w @ [updated_kwargs (clock w) as]\<rparr>
   \<and> args (updated_kwargs (clock w) as) = as
   \<and> clock w + 270 * second < expires (updated_kwargs (clock w) as)
   \<and> expires (updated_kwargs (clock w) as) \<le> clock w + 330 * second
   \<and> max_retries (updated_kwargs (clock w) as) = 0
   \<and> \<not> retry (updated_kwargs (clock w) as)
   \<and> \<not> task_publish_retry (updated_kwargs (clock w) as)
   \<and> create_forest_celery_tasks w =
        w\<lparr>dispatched := dispatched w @
              map (\<lambda>t. updated_kwargs (clock w) [task_id t])
                (filter (\<lambda>t. status t = queued) (tasks w))\<rparr>
   \<and> (first_row (filter (\<lambda>t. task_id t = i) (tasks w)) = Some c
        \<and> (\<exists>s \<in> set (siblings c (tasks w)). status s = running)
      \<longrightarrow> snd (celery_run_forest e w i) =
            w\<lparr>dispatched := dispatched w @ [updated_kwargs (clock w) [i]]\<rparr>)"
proof (intro conjI impI)
  show "enqueue_forest_task as w = w\<lparr>dispatched := dispatched w @ [updated_kwargs (clock w) as]\<rparr>"
    by (simp add: enqueue_forest_task_def safe_apply_async_def)
  show "clock w + 270 * second < expires (updated_kwargs (clock w) as)"
    using expiry_bounds[of "clock w"] by (simp add: updated_kwargs_def)
  show "expires (updated_kwargs (clock w) as) \<le> clock w + 330 * second"
    using expiry_bounds[of "clock w"] by (simp add: updated_kwargs_def)
  show "create_forest_celery_tasks w =
        w\<lparr>dispatched := dispatched w @
              map (\<lambda>t. updated_kwargs (clock w) [task_id t])
                (filter (\<lambda>t. status t = queued) (tasks w))\<rparr>"
    by (simp add: create_forest_celery_tasks_def fold_enqueue_forest_task)
next
  assume a: "first_row (filter (\<lambda>t. task_id t = i) (tasks w)) = Some c
        \<and> (\<exists>s \<in> set (siblings c (tasks w)). status s = running)"
  then have f: "first_row (filter (\<lambda>t. task_id t = i) (tasks w)) = Some c" by simp
  from first_row_filter_id[OF f] have "task_id c = i" by simp
  with a show "snd (celery_run_forest e w i) =
            w\<lparr>dispatched := dispatched w @ [updated_kwargs (clock w) [i]]\<rparr>"
    by (simp add: celery_run_forest_def txn_cases[OF f] enqueue_forest_task_def safe_apply_async_def)
qed (simp_all add: updated_kwargs_def)

theorem C9_dispatch_policy_witness:
  "dispatched (create_forest_celery_tasks
      (ex_world [ex_task 1 7 ''jasmine'' 18628 18630 queued,
                 ex_task 2 7 ''willow'' 18628 18630 success,
                 ex_task 3 8 ''jasmine'' 18628 18630 queued] []))
   = [\<lparr>args = [1], expires = 330000000, max_retries = 0, retry = False,
        task_publish_retry = False, task_track_started = True\<rparr>,
      \<lparr>args = [3], expires = 330000000, max_retries = 0, retry = False,
        task_publish_retry = False, task_track_started = True\<rparr>]
   \<and> snd (celery_run_forest ex_env
        (ex_world [ex_task 1 7 ''jasmine'' 18628 18630 queued,
                   ex_task 2 7 ''jasmine'' 18637 18640 running] []) 1)
     = (ex_world [ex_task 1 7 ''jasmine'' 18628 18630 queued,
                   ex_task 2 7 ''jasmine'' 18637 18640 running] [])
         \<lparr>dispatched := [\<lparr>args = [1], expires = 330000000, max_retries = 0, retry = False,
        task_publish_retry = False, task_track_started = True\<rparr>]\<rparr>"
proof -
  let ?t1 = "ex_task 1 7 ''jasmine'' 18628 18630 queued"
  let ?w = "ex_world [?t1, ex_task 2 7 ''willow'' 18628 18630 success,
                 ex_task 3 8 ''jasmine'' 18628 18630 queued] []"
  let ?w1 = "ex_world [?t1, ex_task 2 7 ''jasmine'' 18637 18640 running] []"
  have found: "first_row (filter (\<lambda>t. task_id t = 1) (tasks ?w1)) = Some ?t1"
    by (simp add: first_row_def ex_world_def ex_task_def)
  have busy: "\<exists>s \<in> set (siblings ?t1 (tasks ?w1)). status s = running"
    by (simp add: siblings_def ex_world_def ex_task_def)
  note c9 = C9_dispatch_policy[of "[1]" ?w 1 ?t1 ex_env]
  note c9' = C9_dispatch_policy[of "[1]" ?w1 1 ?t1 ex_env]
  from c9 have "create_forest_celery_tasks ?w =
        ?w\<lparr>dispatched := dispatched ?w @
              map (\<lambda>t. updated_kwargs (clock ?w) [task_id t])
                (filter (\<lambda>t. status t = queued) (tasks ?w))\<rparr>" by blast
  then have a: "dispatched (create_forest_celery_tasks ?w) =
     [\<lparr>args = [1], expires = 330000000, max_retries = 0, retry = False,
        task_publish_retry = False, task_track_started = True\<rparr>,
      \<lparr>args = [3], expires = 330000000, max_retries = 0, retry = False,
        task_publish_retry = False, task_track_started = True\<rparr>]"
    by (simp add: updated_kwargs_def expiry_def minute_def second_def ex_world_def ex_task_def)
  from c9' found busy have "snd (celery_run_forest ex_env ?w1 1) =
            ?w1\<lparr>dispatched := dispatched ?w1 @ [updated_kwargs (clock ?w1) [1]]\<rparr>" by blast
  then have b: "snd (celery_run_forest ex_env ?w1 1) =
      ?w1\<lparr>dispatched := [\<lparr>args = [1], expires = 330000000, max_retries = 0, retry = False,
        task_publish_retry = False, task_track_started = True\<rparr>]\<rparr>"
    by (simp add: updated_kwargs_def expiry_def minute_def second_def ex_world_def ex_task_def)
  from a b show ?thesis by simp
qed

text \<open>
  Claim C6.  For a site administrator, a cancel request changes exactly the rows with
  the given external id that are queued: they become cancelled and their note reads
  "Canceled by", the user name of the researcher, "on" and the date.  Every other row,
  in whatever state, stays as it is.  The request reports success when such a row
  exists; otherwise it reports failure and leaves the whole state unchanged.  A second
  cancel of the same external id therefore always reports failure and changes nothing.
\<close>

theorem C6_cancel_only_queued:
  assumes admin: "site_admin researcher"
  shows "snd (task_log_post date_str today researcher (Some x) w) =
           w\<lparr>tasks := map (\<lambda>t. if external_id t = x \<and> status t = queued
                     then t\<lparr>status := cancelled,
                            stacktrace := Some (''Canceled by '' @ username researcher
                                                 @ '' on '' @ date_str today)\<rparr>
                     else t) (tasks w)\<rparr>
     \<and> ((\<exists>t \<in> set (tasks w). external_id t = x \<and> status t = queued) \<longrightarrow>
          fst (task_log_post date_str today researcher (Some x) w) =
            Flash_redirect ''Forest task successfully cancelled.'' ''success'')
     \<and> (\<not> (\<exists>t \<in> set (tasks w). external_id t = x \<and> status t = queued) \<longrightarrow>
          task_log_post date_str today researcher (Some x) w =
            (Flash_redirect ''Sorry, we were unable to find or cancel this Forest task.''
               ''warning'', w))
     \<and> task_log_post date_str' today' researcher (Some x)
          (snd (task_log_post date_str today researcher (Some x) w)) =
            (Flash_redirect ''Sorry, we were unable to find or cancel this Forest task.''
               ''warning'', snd (task_log_post date_str today researcher (Some x) w))"
proof -
  let ?f = "\<lambda>t. if external_id t = x \<and> status t = queued
                     then t\<lparr>status := cancelled,
                            stacktrace := Some (''Canceled by '' @ username researcher
                                                 @ '' on '' @ date_str today)\<rparr>
                     else t"
  have s: "snd (task_log_post date_str today researcher (Some x) w) = w\<lparr>tasks := map ?f (tasks w)\<rparr>"
    using admin by (simp add: task_log_post_def Let_def)
  have a: "fst (task_log_post date_str today researcher (Some x) w) =
            Flash_redirect ''Forest task successfully cancelled.'' ''success''"
    if "\<exists>t \<in> set (tasks w). external_id t = x \<and> status t = queued"
  proof -
    from that have "filter (\<lambda>t. external_id t = x \<and> status t = queued) (tasks w) \<noteq> []"
      by (simp add: filter_empty_conv)
    with admin show ?thesis by (simp add: task_log_post_def Let_def)
  qed
  have b: "task_log_post date_str today researcher (Some x) w =
            (Flash_redirect ''Sorry, we were unable to find or cancel this Forest task.''
               ''warning'', w)"
    if "\<not> (\<exists>t \<in> set (tasks w). external_id t = x \<and> status t = queued)"
  proof (rule task_log_post_unmatched[OF admin])
    fix t assume "t \<in> set (tasks w)"
    with that show "\<not> (external_id t = x \<and> status t = queued)" by blast
  qed
  have c: "task_log_post date_str' today' researcher (Some x) (w\<lparr>tasks := map ?f (tasks w)\<rparr>) =
            (Flash_redirect ''Sorry, we were unable to find or cancel this Forest task.''
               ''warning'', w\<lparr>tasks := map ?f (tasks w)\<rparr>)"
  proof (rule task_log_post_unmatched[OF admin])
    fix t assume "t \<in> set (tasks (w\<lparr>tasks := map ?f (tasks w)\<rparr>))"
    then obtain r where "r \<in> set (tasks w)" and t: "t = ?f r" by auto
    show "\<not> (external_id t = x \<and> status t = queued)"
      unfolding t by (cases "external_id r = x \<and> status r = queued") simp_all
  qed
  from a b c show ?thesis unfolding s by blast
qed


theorem C6_cancel_only_queued_witness:
  "task_log_post (\<lambda>d. ''2021-03-01'') 18687 \<lparr>username = ''admin'', site_admin = True\<rparr>
     (Some ''id-2'')
     (ex_world [ex_task 1 7 ''jasmine'' 18628 18630 running,
                ex_task 2 7 ''jasmine'' 18637 18640 queued] [])
   = (Flash_redirect ''Forest task successfully cancelled.'' ''success'',
      ex_world [ex_task 1 7 ''jasmine'' 18628 18630 running,
                (ex_task 2 7 ''jasmine'' 18637 18640 cancelled)
                   \<lparr>stacktrace := Some ''Canceled by admin on 2021-03-01''\<rparr>] [])
   \<and> task_log_post (\<lambda>d. ''2021-03-01'') 18687 \<lparr>username = ''admin'', site_admin = True\<rparr>
     (Some ''id-2'')
     (ex_world [ex_task 1 7 ''jasmine'' 18628 18630 running,
                (ex_task 2 7 ''jasmine'' 18637 18640 cancelled)
                   \<lparr>stacktrace := Some ''Canceled by admin on 2021-03-01''\<rparr>] [])
   = (Flash_redirect ''Sorry, we were unable to find or cancel this Forest task.'' ''warning'',
      ex_world [ex_task 1 7 ''jasmine'' 18628 18630 running,
                (ex_task 2 7 ''jasmine'' 18637 18640 cancelled)
                   \<lparr>stacktrace := Some ''Canceled by admin on 2021-03-01''\<rparr>] [])
   \<and> task_log_post (\<lambda>d. ''2021-03-01'') 18687 \<lparr>username = ''admin'', site_admin = True\<rparr>
     (Some ''id-1'')
     (ex_world [ex_task 1 7 ''jasmine'' 18628 18630 running,
                ex_task 2 7 ''jasmine'' 18637 18640 queued] [])
   = (Flash_redirect ''Sorry, we were unable to find or cancel this Forest task.'' ''warning'',
      ex_world [ex_task 1 7 ''jasmine'' 18628 18630 running,
                ex_task 2 7 ''jasmine'' 18637 18640 queued] [])"
proof -
  let ?r = "\<lparr>username = ''admin'', site_admin = True\<rparr>"
  let ?d = "\<lambda>d::int. ''2021-03-01''"
  let ?w = "ex_world [ex_task 1 7 ''jasmine'' 18628 18630 running,
                ex_task 2 7 ''jasmine'' 18637 18640 queued] []"
  let ?w' = "ex_world [ex_task 1 7 ''jasmine'' 18628 18630 running,
                (ex_task 2 7 ''jasmine'' 18637 18640 cancelled)
                   \<lparr>stacktrace := Some ''Canceled by admin on 2021-03-01''\<rparr>] []"
  have admin: "site_admin ?r" by simp
  note c = C6_cancel_only_queued[OF admin, of ?d 18687 "''id-2''" ?w ?d 18687]
  note c1 = C6_cancel_only_queued[OF admin, of ?d 18687 "''id-1''" ?w ?d 18687]
  have q: "\<exists>t \<in> set (tasks ?w). external_id t = ''id-2'' \<and> status t = queued"
    by (simp add: ex_world_def ex_task_def ex_external_id_def)
  have nq: "\<not> (\<exists>t \<in> set (tasks ?w). external_id t = ''id-1'' \<and> status t = queued)"
    by (simp add: ex_world_def ex_task_def ex_external_id_def)
  have ev: "?w\<lparr>tasks := map (\<lambda>t. if external_id t = ''id-2'' \<and> status t = queued
                     then t\<lparr>status := cancelled,
                            stacktrace := Some (''Canceled by '' @ username ?r
                                                 @ '' on '' @ ?d 18687)\<rparr>
                     else t) (tasks ?w)\<rparr> = ?w'"
    by (simp add: ex_world_def ex_task_def ex_external_id_def)
  from c have "snd (task_log_post ?d 18687 ?r (Some ''id-2'') ?w) =
      ?w\<lparr>tasks := map (\<lambda>t. if external_id t = ''id-2'' \<and> status t = queued
                     then t\<lparr>status := cancelled,
                            stacktrace := Some (''Canceled by '' @ username ?r
                                                 @ '' on '' @ ?d 18687)\<rparr>
                     else t) (tasks ?w)\<rparr>"
    by (rule conjunct1)
  then have sw: "snd (task_log_post ?d 18687 ?r (Some ''id-2'') ?w) = ?w'"
    using ev by (rule trans)
  from c q have fw: "fst (task_log_post ?d 18687 ?r (Some ''id-2'') ?w) =
      Flash_redirect ''Forest task successfully cancelled.'' ''success''" by blast
  from sw fw have a: "task_log_post ?d 18687 ?r (Some ''id-2'') ?w =
      (Flash_redirect ''Forest task successfully cancelled.'' ''success'', ?w')"
    by (cases "task_log_post ?d 18687 ?r (Some ''id-2'') ?w") (simp only: fst_conv snd_conv)
  from c have "task_log_post ?d 18687 ?r (Some ''id-2'')
          (snd (task_log_post ?d 18687 ?r (Some ''id-2'') ?w)) =
            (Flash_redirect ''Sorry, we were unable to find or cancel this Forest task.''
               ''warning'', snd (task_log_post ?d 18687 ?r (Some ''id-2'') ?w))"
    by (elim conjE)
  then have b: "task_log_post ?d 18687 ?r (Some ''id-2'') ?w' =
     (Flash_redirect ''Sorry, we were unable to find or cancel this Forest task.'' ''warning'', ?w')"
    unfolding sw .
  from c1 nq have d: "task_log_post ?d 18687 ?r (Some ''id-1'') ?w =
     (Flash_redirect ''Sorry, we were unable to find or cancel this Forest task.'' ''warning'', ?w)"
    by blast
  from a b d show ?thesis by (intro conjI)
qed

text \<open>
  Claim C8.  For an existing study the page returns the database unchanged and a chart
  with one row for every pair of a participant of the study and a tree of the fixed
  list, in that order, and in each row one cell for every date from the start date to
  the end date of the page.  A cell that no task covers holds the string "--"; a cell
  that some task covers holds the status of a task that covers it and whose creation
  time is not before that of any other task covering it.  The witness is the example of
  the specification: one successful task over January 1 to 5 gives "success" on exactly
  those five dates.
\<close>

theorem C8_status_grid:
  assumes study: "first_row (filter (\<lambda>s. study_pk s = study_id) (studies w)) = Some study"
  shows "\<exists>page cellf.
     analysis_progress trees today w study_id = (Inr page, w)
   \<and> chart_dates page = daterange (start_date page) (end_date page)
   \<and> chart page =
        concat (map (\<lambda>p. map (\<lambda>tree.
                  \<lparr>row_participant = participant_pk p, row_tree = tree,
                   row_cells = map (cellf (participant_pk p) tree) (chart_dates page)\<rparr>) trees)
          (filter (\<lambda>p. participant_study p = study_id) (participants w)))
   \<and> (\<forall>p \<in> set (filter (\<lambda>p. participant_study p = study_id) (participants w)). \<forall>tree d.
        ((\<forall>t \<in> set (tasks w). \<not> covers (participant_pk p, tree, d) t) \<longrightarrow>
            cellf (participant_pk p) tree d = Inl ''--'')
      \<and> ((\<exists>t \<in> set (tasks w). covers (participant_pk p, tree, d) t) \<longrightarrow>
            (\<exists>t \<in> set (tasks w). covers (participant_pk p, tree, d) t
               \<and> cellf (participant_pk p) tree d = Inr (status t)
               \<and> (\<forall>u \<in> set (tasks w). covers (participant_pk p, tree, d) u \<longrightarrow>
                     created_on u \<le> created_on t))))"
proof -
  let ?ps = "filter (\<lambda>p. participant_study p = study_id) (participants w)"
  let ?pks = "set (map participant_pk ?ps)"
  let ?registry = "filter (\<lambda>c. chunk_participant c \<in> ?pks) (chunks w)"
  let ?res = "fold record_tracker
                (sort_key created_on (filter (\<lambda>t. participant t \<in> ?pks) (tasks w))) Map.empty"
  let ?cellf = "\<lambda>p tree d. lookup_default ?res (p, tree, d)"
  let ?X = "(case (earliest ?registry, latest ?registry) of
        (Inr a, Inr b) \<Rightarrow> (date_of a, date_of b)
      | _ \<Rightarrow> (date_of (study_created_on study), today))"
  let ?page = "\<lparr>start_date = fst ?X, end_date = snd ?X,
      chart_dates = daterange (fst ?X) (snd ?X),
      chart = concat (map (\<lambda>p. map (\<lambda>tree.
                  \<lparr>row_participant = participant_pk p, row_tree = tree,
                   row_cells = map (?cellf (participant_pk p) tree)
                                 (daterange (fst ?X) (snd ?X))\<rparr>) trees) ?ps)\<rparr>"
  have ap: "analysis_progress trees today w study_id = (Inr ?page, w)"
    unfolding analysis_progress_def study Let_def option.case case_prod_beta ..
  have cells: "\<forall>p \<in> set ?ps. \<forall>tree d.
        ((\<forall>t \<in> set (tasks w). \<not> covers (participant_pk p, tree, d) t) \<longrightarrow>
            ?cellf (participant_pk p) tree d = Inl ''--'')
      \<and> ((\<exists>t \<in> set (tasks w). covers (participant_pk p, tree, d) t) \<longrightarrow>
            (\<exists>t \<in> set (tasks w). covers (participant_pk p, tree, d) t
               \<and> ?cellf (participant_pk p) tree d = Inr (status t)
               \<and> (\<forall>u \<in> set (tasks w). covers (participant_pk p, tree, d) u \<longrightarrow>
                     created_on u \<le> created_on t)))"
  proof (intro ballI allI)
    fix p tree d assume "p \<in> set ?ps"
    then have "participant_pk p \<in> ?pks" by (simp only: set_map) (rule imageI)
    from grid_cell[OF this, of "tasks w" tree d]
    show "((\<forall>t \<in> set (tasks w). \<not> covers (participant_pk p, tree, d) t) \<longrightarrow>
            ?cellf (participant_pk p) tree d = Inl ''--'')
      \<and> ((\<exists>t \<in> set (tasks w). covers (participant_pk p, tree, d) t) \<longrightarrow>
            (\<exists>t \<in> set (tasks w). covers (participant_pk p, tree, d) t
               \<and> ?cellf (participant_pk p) tree d = Inr (status t)
               \<and> (\<forall>u \<in> set (tasks w). covers (participant_pk p, tree, d) u \<longrightarrow>
                     created_on u \<le> created_on t)))" .
  qed
  show ?thesis
    apply (rule exI[of _ ?page])
    apply (rule exI[of _ ?cellf])
    apply (intro conjI)
       apply (rule ap)
      apply simp
     apply simp
    apply (rule cells)
    done
qed

theorem C8_status_grid_witness:
  "analysis_progress [''jasmine'', ''willow''] 18634 ex_grid_world 1 =
     (Inr \<lparr>start_date = 18627, end_date = 18634,
           chart_dates = [18627, 18628, 18629, 18630, 18631, 18632, 18633, 18634],
           chart =
             [\<lparr>row_participant = 7, row_tree = ''jasmine'',
               row_cells = [Inl ''--'', Inr success, Inr success, Inr success, Inr success,
                            Inr success, Inl ''--'', Inl ''--'']\<rparr>,
              \<lparr>row_participant = 7, row_tree = ''willow'',
               row_cells = [Inl ''--'', Inl ''--'', Inl ''--'', Inl ''--'', Inl ''--'',
                            Inl ''--'', Inl ''--'', Inl ''--'']\<rparr>]\<rparr>,
      ex_grid_world)"
proof -
  have study: "first_row (filter (\<lambda>s. study_pk s = 1) (studies ex_grid_world))
      = Some \<lparr>study_pk = 1, study_created_on = 1609372800000000\<rparr>"
    by (simp add: first_row_def ex_grid_world_def)
  from C8_status_grid[OF study, of "[''jasmine'', ''willow'']" 18634]
  obtain page where "analysis_progress [''jasmine'', ''willow''] 18634 ex_grid_world 1 = (Inr page, ex_grid_world)"
    by blast
  then have w: "snd (analysis_progress [''jasmine'', ''willow''] 18634 ex_grid_world 1) = ex_grid_world"
    by simp
  have dates: "[18627..18634::int] = [18627, 18628, 18629, 18630, 18631, 18632, 18633, 18634]"
    by (simp add: upto_rec1)
  have p: "fst (analysis_progress [''jasmine'', ''willow''] 18634 ex_grid_world 1) =
     Inr \<lparr>start_date = 18627, end_date = 18634,
           chart_dates = [18627, 18628, 18629, 18630, 18631, 18632, 18633, 18634],
           chart =
             [\<lparr>row_participant = 7, row_tree = ''jasmine'',
               row_cells = [Inl ''--'', Inr success, Inr success, Inr success, Inr success,
                            Inr success, Inl ''--'', Inl ''--'']\<rparr>,
              \<lparr>row_participant = 7, row_tree = ''willow'',
               row_cells = [Inl ''--'', Inl ''--'', Inl ''--'', Inl ''--'', Inl ''--'',
                            Inl ''--'', Inl ''--'', Inl ''--'']\<rparr>]\<rparr>"
    by (simp add: analysis_progress_def first_row_def ex_grid_world_def ex_task_def
        ex_external_id_def earliest_def latest_def date_of_def second_def daterange_def dates
        record_tracker_def lookup_default_def upto_rec1)
  from p w show ?thesis by (simp add: prod_eq_iff)
qed

text \<open>
  Claim C7, as amended.  When the dispatched task exists and, at the time the lock is
  taken, no task of its (participant, tree) pair is running and none is queued (the
  candidate was cancelled or has run already, and no queued sibling remains), the run is
  a silent no-op: it returns without raising and leaves the whole state as it was.  The
  claim as stated fails by design for a consumed candidate with a queued sibling: the
  coordinator then starts the sibling, as the counterexample shows for a cancelled
  candidate.
\<close>

theorem C7_consumed_is_noop:
  assumes found: "first_row (filter (\<lambda>t. task_id t = i) (tasks w)) = Some c"
    and consumed: "\<forall>s \<in> set (siblings c (tasks w)). status s \<noteq> running \<and> status s \<noteq> queued"
  shows "celery_run_forest e w i = (None, w)"
proof -
  from consumed have idle: "\<not> (\<exists>s \<in> set (siblings c (tasks w)). status s = running)"
    by blast
  from consumed have "filter (\<lambda>t. status t = queued) (siblings c (tasks w)) = []"
    by (auto simp: filter_empty_conv)
  then have "first_row (order_by_desc data_date_start
               (filter (\<lambda>t. status t = queued) (siblings c (tasks w)))) = None"
    by (simp add: first_row_def order_by_desc_def)
  with idle show ?thesis
    by (simp add: celery_run_forest_def txn_cases[OF found])
qed

theorem C7_consumed_is_noop_witness:
  "celery_run_forest ex_env
     (ex_world [ex_task 1 7 ''jasmine'' 18628 18630 cancelled,
                ex_task 2 7 ''willow'' 18628 18630 queued,
                ex_task 3 7 ''jasmine'' 18628 18630 success] []) 1
   = (None,
      ex_world [ex_task 1 7 ''jasmine'' 18628 18630 cancelled,
                ex_task 2 7 ''willow'' 18628 18630 queued,
                ex_task 3 7 ''jasmine'' 18628 18630 success] [])"
proof (rule C7_consumed_is_noop)
  show "first_row (filter (\<lambda>t. task_id t = 1)
          (tasks (ex_world [ex_task 1 7 ''jasmine'' 18628 18630 cancelled,
                ex_task 2 7 ''willow'' 18628 18630 queued,
                ex_task 3 7 ''jasmine'' 18628 18630 success] [])))
        = Some (ex_task 1 7 ''jasmine'' 18628 18630 cancelled)"
    by (simp add: first_row_def ex_world_def ex_task_def)
  show "\<forall>s \<in> set (siblings (ex_task 1 7 ''jasmine'' 18628 18630 cancelled)
          (tasks (ex_world [ex_task 1 7 ''jasmine'' 18628 18630 cancelled,
                ex_task 2 7 ''willow'' 18628 18630 queued,
                ex_task 3 7 ''jasmine'' 18628 18630 success] []))).
           status s \<noteq> running \<and> status s \<noteq> queued"
    by (simp add: siblings_def ex_world_def ex_task_def)
qed

theorem C7_counterexample:
  "first_row (filter (\<lambda>t. task_id t = 1)
      (tasks (ex_world [ex_task 1 7 ''jasmine'' 18628 18630 cancelled,
                        ex_task 2 7 ''jasmine'' 18637 18640 queued] [])))
     = Some (ex_task 1 7 ''jasmine'' 18628 18630 cancelled)
   \<and> celery_run_forest_txn ex_env
       (ex_world [ex_task 1 7 ''jasmine'' 18628 18630 cancelled,
                  ex_task 2 7 ''jasmine'' 18637 18640 queued] []) 1
     = (TxnStarted ((ex_task 2 7 ''jasmine'' 18637 18640 running)
                      \<lparr>forest_version := ''0.1.0'', process_start_time := Some 1000\<rparr>) 7,
        ex_world [ex_task 1 7 ''jasmine'' 18628 18630 cancelled,
                  (ex_task 2 7 ''jasmine'' 18637 18640 running)
                      \<lparr>forest_version := ''0.1.0'', process_start_time := Some 1000\<rparr>] [])
   \<and> map status (tasks (snd (celery_run_forest ex_env
       (ex_world [ex_task 1 7 ''jasmine'' 18628 18630 cancelled,
                  ex_task 2 7 ''jasmine'' 18637 18640 queued] []) 1)))
     \<noteq> [cancelled, queued]"
  by (simp add: run_defs orm_defs ex_defs)

text \<open>
  Claim C10.  Suppose the file size was saved and the final save works.  If the target
  file of some chunk of the participant already exists in the file system, or two
  chunks have the same target file, then the materialization raises; every file that
  existed before is still there with its content, neither overwritten nor extended;
  and the run returns with the task stored in state error and the formatted exception
  as its stacktrace.
\<close>

theorem C10_exclusive_create:
  assumes step5: "save_file_size_data e w tracker p = Inr (t1, cs, w1)"
    and final: "db_fault e Save_final = None"
    and clash: "(\<exists>c \<in> set cs. path_exists (files w1) (local_file_name e t1 c))
                \<or> \<not> distinct (map (local_file_name e t1) cs)"
  shows "\<exists>x fsys w' row.
           create_local_data_files e t1 cs (files w1) = (Some x, fsys)
         \<and> set (files w1) \<subseteq> set fsys
         \<and> celery_run_forest_rest e w tracker p = (None, w')
         \<and> stored row (tasks w') \<and> task_id row = task_id tracker
         \<and> status row = error \<and> stacktrace row = Some (format_exc x)"
proof -
  from create_local_data_files_clash[OF clash]
  obtain x fsys where c: "create_local_data_files e t1 cs (files w1) = (Some x, fsys)"
    by (cases "create_local_data_files e t1 cs (files w1)") auto
  have keep: "set (files w1) \<subseteq> set fsys"
    using create_local_data_files_keeps[of "files w1" e t1 cs] c by simp
  let ?w2 = "w1\<lparr>files := fsys, clock := clock w1 + download_time e\<rparr>"
  let ?row = "final_tracker (Some x) t1 ?w2"
  from finish_run_ok[OF final, of "Some x" t1 ?w2]
  obtain table where f: "finish_run e (Some x) t1 ?w2 = (None, clean_up_files e ?row (?w2\<lparr>tasks := table\<rparr>))"
    and st: "stored ?row table" by blast
  from rest_unfold[OF step5 try_body_download_failed[OF c]] f
  have r: "celery_run_forest_rest e w tracker p = (None, clean_up_files e ?row (?w2\<lparr>tasks := table\<rparr>))"
    by simp
  have id: "task_id ?row = task_id tracker"
    using task_id_save_file_size_data[OF step5] by (simp add: final_tracker_def)
  have "status ?row = error" "stacktrace ?row = Some (format_exc x)"
    by (simp_all add: final_tracker_def)
  with c keep r st id show ?thesis
    by (intro exI[of _ x] exI[of _ fsys]
          exI[of _ "clean_up_files e ?row (?w2\<lparr>tasks := table\<rparr>)"] exI[of _ ?row]) simp
qed


theorem C10_exclusive_create_witness:
  "path_exists [(''/tmp/forest/id-1/data/a.csv'', ''old'')]
     (local_file_name ex_env (ex_task 1 7 ''jasmine'' 18628 18630 running) (ex_chunk 7 ''a.csv'' 10))
   \<and> fst (celery_run_forest_rest ex_env
        ((ex_world [ex_task 1 7 ''jasmine'' 18628 18630 running] [ex_chunk 7 ''a.csv'' 10])
           \<lparr>files := [(''/tmp/forest/id-1/data/a.csv'', ''old'')]\<rparr>)
        (ex_task 1 7 ''jasmine'' 18628 18630 running) 7) = None
   \<and> map status (tasks (snd (celery_run_forest_rest ex_env
        ((ex_world [ex_task 1 7 ''jasmine'' 18628 18630 running] [ex_chunk 7 ''a.csv'' 10])
           \<lparr>files := [(''/tmp/forest/id-1/data/a.csv'', ''old'')]\<rparr>)
        (ex_task 1 7 ''jasmine'' 18628 18630 running) 7))) = [error]
   \<and> map stacktrace (tasks (snd (celery_run_forest_rest ex_env
        ((ex_world [ex_task 1 7 ''jasmine'' 18628 18630 running] [ex_chunk 7 ''a.csv'' 10])
           \<lparr>files := [(''/tmp/forest/id-1/data/a.csv'', ''old'')]\<rparr>)
        (ex_task 1 7 ''jasmine'' 18628 18630 running) 7)))
       = [Some ''Traceback (most recent call last): FileExistsError'']"
proof -
  let ?t = "ex_task 1 7 ''jasmine'' 18628 18630 running"
  let ?c = "ex_chunk 7 ''a.csv'' 10"
  let ?w = "(ex_world [?t] [?c])\<lparr>files := [(''/tmp/forest/id-1/data/a.csv'', ''old'')]\<rparr>"
  let ?t1 = "?t\<lparr>total_file_size := Some 10\<rparr>"
  let ?w1 = "?w\<lparr>tasks := [?t1]\<rparr>"
  have fn: "local_file_name ex_env ?t ?c = ''/tmp/forest/id-1/data/a.csv''"
    "local_file_name ex_env ?t1 ?c = ''/tmp/forest/id-1/data/a.csv''"
    by (simp_all add: local_file_name_def path_join_def ex_defs)
  have step5: "save_file_size_data ex_env ?w ?t 7 = Inr (?t1, [?c], ?w1)"
    by (simp add: save_file_size_data_def Let_def orm_defs ex_defs)
  have final: "db_fault ex_env Save_final = None" by (simp add: ex_env_def)
  have clash: "(\<exists>c \<in> set [?c]. path_exists (files ?w1) (local_file_name ex_env ?t1 c))
                \<or> \<not> distinct (map (local_file_name ex_env ?t1) [?c])"
    by (simp add: local_file_name_def path_join_def path_exists_def ex_defs)
  from C10_exclusive_create[OF step5 final clash]
  obtain w' where r: "celery_run_forest_rest ex_env ?w ?t 7 = (None, w')"
    by blast
  have ev: "tasks (snd (celery_run_forest_rest ex_env ?w ?t 7)) =
     [?t\<lparr>total_file_size := Some 10, status := error,
          stacktrace := Some ''Traceback (most recent call last): FileExistsError'',
          process_end_time := Some 1007\<rparr>]"
    by (simp add: run_defs orm_defs ex_defs)
  from r have "fst (celery_run_forest_rest ex_env ?w ?t 7) = None" by simp
  moreover have "path_exists [(''/tmp/forest/id-1/data/a.csv'', ''old'')] (local_file_name ex_env ?t ?c)"
    by (simp add: local_file_name_def path_join_def path_exists_def ex_defs)
  ultimately show ?thesis unfolding ev by (simp add: ex_task_def)
qed

end
